theory Spec2Isabelle
  imports Complex_Main
begin

section \<open>Go strings\<close>

text \<open>
  A Go \<^verbatim>\<open>string\<close> is a sequence of bytes, and so is \<^typ>\<open>string\<close>: a list of
  8-bit characters. The functions of package \<^verbatim>\<open>strings\<close> that the program calls are
  written out here on byte lists, under their Go names.
\<close>

fun HasPrefix :: "string \<Rightarrow> string \<Rightarrow> bool" where
  "HasPrefix s [] = True"
| "HasPrefix [] (p # ps) = False"
| "HasPrefix (c # cs) (p # ps) = (c = p \<and> HasPrefix cs ps)"

definition HasSuffix :: "string \<Rightarrow> string \<Rightarrow> bool" where
  "HasSuffix s e = HasPrefix (rev s) (rev e)"

text \<open>
  \<^verbatim>\<open>strings.Index(s, sub)\<close>: the byte offset of the first occurrence of \<open>sub\<close> in
  \<open>s\<close>, or \<open>-1\<close> when there is none. The empty string occurs at offset 0.
\<close>

fun Index :: "string \<Rightarrow> string \<Rightarrow> int" where
  "Index [] sub = (if sub = [] then 0 else - 1)"
| "Index (c # cs) sub =
     (if HasPrefix (c # cs) sub then 0
      else (let i = Index cs sub in if i < 0 then - 1 else i + 1))"

definition Contains :: "string \<Rightarrow> string \<Rightarrow> bool" where
  "Contains s sub = (0 \<le> Index s sub)"

text \<open>
  \<^verbatim>\<open>strings.Replace(s, old, new, 1)\<close>: the first occurrence of \<open>old\<close> replaced by
  \<open>new\<close>. Go returns \<open>s\<close> itself when \<open>old = new\<close> or when \<open>old\<close> does not occur.
\<close>

definition Replace1 :: "string \<Rightarrow> string \<Rightarrow> string \<Rightarrow> string" where
  "Replace1 s old new =
     (if old = new then s
      else (let i = Index s old in
            if i < 0 then s
            else take (nat i) s @ new @ drop (nat i + length old) s))"

text \<open>
  \<^verbatim>\<open>strings.TrimSpace\<close> removes from both ends every rune for which
  \<^verbatim>\<open>unicode.IsSpace\<close> holds. On bytes, that is every leading and every trailing
  UTF-8 encoding of one of these runes: U+0009 to U+000D, U+0020, U+0085, U+00A0, U+1680,
  U+2000 to U+200A, U+2028, U+2029, U+202F, U+205F, U+3000. Each multi-byte encoding
  starts with a leading byte, so decoding forwards from the start and backwards from the
  end finds exactly these byte sequences.
\<close>

definition spaceEncodings :: "string list" where
  "spaceEncodings =
     [[CHR 0x09], [CHR 0x0A], [CHR 0x0B], [CHR 0x0C], [CHR 0x0D], [CHR 0x20],
      [CHR 0xC2, CHR 0x85], [CHR 0xC2, CHR 0xA0],
      [CHR 0xE1, CHR 0x9A, CHR 0x80],
      [CHR 0xE2, CHR 0x80, CHR 0x80], [CHR 0xE2, CHR 0x80, CHR 0x81],
      [CHR 0xE2, CHR 0x80, CHR 0x82], [CHR 0xE2, CHR 0x80, CHR 0x83],
      [CHR 0xE2, CHR 0x80, CHR 0x84], [CHR 0xE2, CHR 0x80, CHR 0x85],
      [CHR 0xE2, CHR 0x80, CHR 0x86], [CHR 0xE2, CHR 0x80, CHR 0x87],
      [CHR 0xE2, CHR 0x80, CHR 0x88], [CHR 0xE2, CHR 0x80, CHR 0x89],
      [CHR 0xE2, CHR 0x80, CHR 0x8A],
      [CHR 0xE2, CHR 0x80, CHR 0xA8], [CHR 0xE2, CHR 0x80, CHR 0xA9],
      [CHR 0xE2, CHR 0x80, CHR 0xAF], [CHR 0xE2, CHR 0x81, CHR 0x9F],
      [CHR 0xE3, CHR 0x80, CHR 0x80]]"

fun leadingSpace :: "string list \<Rightarrow> string \<Rightarrow> nat" where
  "leadingSpace [] s = 0"
| "leadingSpace (e # es) s = (if HasPrefix s e then length e else leadingSpace es s)"

fun trailingSpace :: "string list \<Rightarrow> string \<Rightarrow> nat" where
  "trailingSpace [] s = 0"
| "trailingSpace (e # es) s = (if HasSuffix s e then length e else trailingSpace es s)"

function TrimLeftSpace :: "string \<Rightarrow> string" where
  "TrimLeftSpace s =
     (let n = leadingSpace spaceEncodings s in
      if n = 0 \<or> length s < n then s else TrimLeftSpace (drop n s))"
  by pat_completeness auto
termination
  by (relation "measure length") auto

function TrimRightSpace :: "string \<Rightarrow> string" where
  "TrimRightSpace s =
     (let n = trailingSpace spaceEncodings s in
      if n = 0 \<or> length s < n then s else TrimRightSpace (take (length s - n) s))"
  by pat_completeness auto
termination
  by (relation "measure length") auto

definition TrimSpace :: "string \<Rightarrow> string" where
  "TrimSpace s = TrimRightSpace (TrimLeftSpace s)"

text \<open>\<^verbatim>\<open>strings.Join(strs, sep)\<close>.\<close>

fun Join :: "string list \<Rightarrow> string \<Rightarrow> string" where
  "Join [] sep = []"
| "Join [x] sep = x"
| "Join (x # y # ys) sep = x @ sep @ Join (y # ys) sep"

section \<open>Regular expressions\<close>

text \<open>
  The program matches text with package \<^verbatim>\<open>regexp\<close>. Its patterns are sequences of
  literals, character classes under \<^verbatim>\<open>?\<close>, \<^verbatim>\<open>*\<close> and \<^verbatim>\<open>+\<close>, alternations of
  literals, the anchors \<^verbatim>\<open>^\<close> and \<^verbatim>\<open>$\<close>, and one capturing group. A pattern is
  written here as the list of its items, named after the operators of
  \<^verbatim>\<open>regexp/syntax\<close>; \<open>CapOpen\<close> and \<open>CapClose\<close> are the parentheses of the group.

  Go returns the leftmost match and, among the matches that start there, the one a
  backtracking search finds first: alternatives in the order written, greedy operators
  taking the longer text first. \<open>matchHere\<close> is that search at one position.
  Its arguments are the items still to match, whether the position is the beginning of
  the text, the input at the opening parenthesis, the captured text, and the input.
  It returns the captured text and the input left after the match.
\<close>

datatype cclass = Chr char | NoneOf "char list" | Digit

definition isDigit :: "char \<Rightarrow> bool" where
  "isDigit c = (c \<in> set ''0123456789'')"

fun classHas :: "cclass \<Rightarrow> char \<Rightarrow> bool" where
  "classHas (Chr x) c = (c = x)"
| "classHas (NoneOf xs) c = (c \<notin> set xs)"
| "classHas Digit c = isDigit c"

datatype re =
    Literal string
  | CharClass cclass
  | Quest cclass
  | Star cclass
  | Plus cclass
  | Alternate "string list"
  | CapOpen
  | CapClose
  | BeginText
  | EndText

fun reWeight :: "re \<Rightarrow> nat" where
  "reWeight (Alternate ls) = Suc (length ls)"
| "reWeight r = 1"

function (sequential) matchHere :: "re list \<Rightarrow> bool \<Rightarrow> string \<Rightarrow> string \<Rightarrow> string \<Rightarrow> (string \<times> string) option" where
  "matchHere [] atStart opn cap s = Some (cap, s)"
| "matchHere (BeginText # rs) atStart opn cap s = (if atStart then matchHere rs atStart opn cap s else None)"
| "matchHere (EndText # rs) atStart opn cap s = (if s = [] then matchHere rs atStart opn cap s else None)"
| "matchHere (CapOpen # rs) atStart opn cap s = matchHere rs atStart s cap s"
| "matchHere (CapClose # rs) atStart opn cap s = matchHere rs atStart opn (take (length opn - length s) opn) s"
| "matchHere (Literal l # rs) atStart opn cap s =
     (if HasPrefix s l then matchHere rs (atStart \<and> l = []) opn cap (drop (length l) s) else None)"
| "matchHere (CharClass c # rs) atStart opn cap [] = None"
| "matchHere (CharClass c # rs) atStart opn cap (x # xs) =
     (if classHas c x then matchHere rs False opn cap xs else None)"
| "matchHere (Quest c # rs) atStart opn cap [] = matchHere rs atStart opn cap []"
| "matchHere (Quest c # rs) atStart opn cap (x # xs) =
     (if classHas c x
      then (case matchHere rs False opn cap xs of
              Some r \<Rightarrow> Some r
            | None \<Rightarrow> matchHere rs atStart opn cap (x # xs))
      else matchHere rs atStart opn cap (x # xs))"
| "matchHere (Star c # rs) atStart opn cap [] = matchHere rs atStart opn cap []"
| "matchHere (Star c # rs) atStart opn cap (x # xs) =
     (if classHas c x
      then (case matchHere (Star c # rs) False opn cap xs of
              Some r \<Rightarrow> Some r
            | None \<Rightarrow> matchHere rs atStart opn cap (x # xs))
      else matchHere rs atStart opn cap (x # xs))"
| "matchHere (Plus c # rs) atStart opn cap [] = None"
| "matchHere (Plus c # rs) atStart opn cap (x # xs) =
     (if classHas c x then matchHere (Star c # rs) False opn cap xs else None)"
| "matchHere (Alternate [] # rs) atStart opn cap s = None"
| "matchHere (Alternate (l # ls) # rs) atStart opn cap s =
     (case (if HasPrefix s l then matchHere rs (atStart \<and> l = []) opn cap (drop (length l) s)
            else None) of
        Some r \<Rightarrow> Some r
      | None \<Rightarrow> matchHere (Alternate ls # rs) atStart opn cap s)"
  by pat_completeness auto
termination
  by (relation "inv_image (less_than <*lex*> less_than)
        (\<lambda>(rs, atStart, opn, cap, s). (sum_list (map reWeight rs), length s))") auto

fun findFrom :: "re list \<Rightarrow> bool \<Rightarrow> string \<Rightarrow> string list" where
  "findFrom pat atStart [] =
     (case matchHere pat atStart [] [] [] of
        Some (cap, rest) \<Rightarrow> [[], cap]
      | None \<Rightarrow> [])"
| "findFrom pat atStart (x # xs) =
     (case matchHere pat atStart [] [] (x # xs) of
        Some (cap, rest) \<Rightarrow> [take (length (x # xs) - length rest) (x # xs), cap]
      | None \<Rightarrow> findFrom pat False xs)"

definition FindStringSubmatch :: "re list \<Rightarrow> string \<Rightarrow> string list" where
  "FindStringSubmatch pat s = findFrom pat True s"

definition MatchString :: "re list \<Rightarrow> string \<Rightarrow> bool" where
  "MatchString pat s = (FindStringSubmatch pat s \<noteq> [])"

section \<open>The URL resolver\<close>

text \<open>
  \<^verbatim>\<open>douban.go\<close>, \<^verbatim>\<open>ParseDoubanURL\<close>. The pattern is
  \<^verbatim>\<open>^https://(?:(?:www|book|movie)\.douban\.com)/(?:game|subject)/(\d+)/?$\<close>.
\<close>

definition urlPattern :: "re list" where
  "urlPattern =
     [BeginText, Literal ''https://'', Alternate [''www'', ''book'', ''movie''], Literal ''.douban.com'', Literal ''/'',
      Alternate [''game'', ''subject''], Literal ''/'', CapOpen, Plus Digit, CapClose,
      Quest (Chr (CHR ''/'')), EndText]"


text \<open>
  \<^verbatim>\<open>url.Parse\<close> followed by \<^verbatim>\<open>Hostname()\<close>, for an absolute URL
  \<open>scheme://host/path\<close> without user information and without a bracketed address,
  which is all the pattern lets through: parsing fails on an ASCII control character,
  the host is the text after \<open>://\<close> up to the next \<open>/\<close>, \<open>?\<close> or \<open>#\<close>, and
  \<^verbatim>\<open>Hostname\<close> drops a port.
\<close>

definition isCTL :: "char \<Rightarrow> bool" where
  "isCTL c = ((of_char c :: nat) < 0x20 \<or> (of_char c :: nat) = 0x7F)"

definition url_Hostname :: "string \<Rightarrow> string option" where
  "url_Hostname rawURL =
     (if list_ex isCTL rawURL then None
      else (let i = Index rawURL ''://'' in
            if i < 0 then Some []
            else Some (takeWhile (\<lambda>c. c \<notin> set ''/?#:'') (drop (nat i + 3) rawURL))))"

datatype parse_error =
    InvalidFormat
  | ExtractionFailed
  | URLParseFailed
  | UnknownSubjectType
  | InvalidHost string "string list"

definition validHosts :: "string \<Rightarrow> string list option" where
  "validHosts subjectType =
     (if subjectType = ''book'' then Some [''book.douban.com'']
      else if subjectType = ''movie'' \<or> subjectType = ''tv'' \<or> subjectType = ''anime''
      then Some [''movie.douban.com'']
      else if subjectType = ''game'' then Some [''www.douban.com'']
      else None)"

text \<open>
  \<^verbatim>\<open>strings.Split(h, ":")[0]\<close> is the text of \<open>h\<close> before its first colon.
\<close>

definition ParseDoubanURL :: "string \<Rightarrow> string \<Rightarrow> parse_error + string" where
  "ParseDoubanURL externalURL subjectType =
     (if \<not> MatchString urlPattern externalURL then Inl InvalidFormat
      else
        (let matches = FindStringSubmatch urlPattern externalURL in
         if length matches \<le> 1 then Inl ExtractionFailed
         else
           (let subjectID = matches ! 1 in
            case url_Hostname externalURL of
              None \<Rightarrow> Inl URLParseFailed
            | Some hostname \<Rightarrow>
                (let urlHost = takeWhile (\<lambda>c. c \<noteq> CHR '':'') hostname in
                 case validHosts subjectType of
                   None \<Rightarrow> Inl UnknownSubjectType
                 | Some hosts \<Rightarrow>
                     if urlHost \<in> set hosts then Inr subjectID
                     else Inl (InvalidHost subjectType hosts)))))"

text \<open>
  The URLs the pattern is meant to describe, written out: scheme \<open>https\<close>, one of the
  three hosts, a path \<open>/game/\<close> or \<open>/subject/\<close> followed by a non-empty run of
  digits, and an optional final slash. \<open>subjectURL u host ds\<close> says that \<open>u\<close> is such
  a URL with host \<open>host\<close> and digit run \<open>ds\<close>.
\<close>

definition subjectURL :: "string \<Rightarrow> string \<Rightarrow> string \<Rightarrow> bool" where
  "subjectURL u host ds \<longleftrightarrow>
     (\<exists>k t. (host = ''www.douban.com'' \<or> host = ''book.douban.com'' \<or> host = ''movie.douban.com'') \<and>
            (k = ''game'' \<or> k = ''subject'') \<and> (t = [] \<or> t = ''/'') \<and>
            ds \<noteq> [] \<and> (\<forall>c \<in> set ds. isDigit c) \<and>
            u = ''https://'' @ host @ ''/'' @ k @ ''/'' @ ds @ t)"

section \<open>The metadata mapper: raw shapes and the canonical record\<close>

text \<open>\<^verbatim>\<open>douban.go\<close>: the structs the JSON of the API is decoded into.\<close>

record DoubanCover =
  Normal :: string

record DoubanRating =
  Count :: int
  Value :: real
  Max :: int

record DoubanGameSubject =
  g_Title :: string
  g_TitleCN :: string
  g_ReleaseDate :: string
  g_Developer :: "string list"
  g_Publisher :: "string list"
  g_Intro :: string
  g_Type :: string
  g_Cover :: DoubanCover
  g_Rating :: "DoubanRating option"

record MediaSubject =
  Title :: string
  AltTitle :: string
  Creator :: string
  Press :: string
  PubDate :: string
  Summary :: string
  ImageURL :: string
  Rating :: real

definition joinStringsWithSlash :: "string list \<Rightarrow> string" where
  "joinStringsWithSlash strs = Join strs ''/''"

text \<open>
  The \<^verbatim>\<open>case *DoubanGameSubject\<close> branch of \<^verbatim>\<open>FetchDoubanMediaInfo\<close>. A variable of
  the function that the branch does not assign keeps Go's zero value: the rating stays
  0 when the \<^verbatim>\<open>rating\<close> object is absent.
\<close>

definition gameTitle :: "DoubanGameSubject \<Rightarrow> string" where
  "gameTitle subject =
     (if Contains (g_Title subject) (g_TitleCN subject) then g_TitleCN subject
      else g_Title subject)"

definition gameAltTitle :: "DoubanGameSubject \<Rightarrow> string" where
  "gameAltTitle subject =
     (if Contains (g_Title subject) (g_TitleCN subject)
      then TrimSpace (Replace1 (g_Title subject) (g_TitleCN subject) [])
      else g_TitleCN subject)"

definition projectGame :: "DoubanGameSubject \<Rightarrow> MediaSubject" where
  "projectGame subject =
     \<lparr> Title = gameTitle subject,
       AltTitle = gameAltTitle subject,
       Creator = joinStringsWithSlash (g_Developer subject),
       Press = joinStringsWithSlash (g_Publisher subject),
       PubDate = g_ReleaseDate subject,
       Summary = g_Intro subject,
       ImageURL = Normal (g_Cover subject),
       Rating = (case g_Rating subject of None \<Rightarrow> 0 | Some r \<Rightarrow> Value r) \<rparr>"

text \<open>
  The example of the specification, in UTF-8: a primary title of nine runes, a space and
  the localized title; the localized title \<open>AI\<close> followed by three runes; and the
  primary title without the space and the localized title.
\<close>

definition exampleTitle :: string where
  "exampleTitle =
     [CHR 0xE7, CHR 0xB4, CHR 0xA0, CHR 0xE4, CHR 0xBA, CHR 0xBA, CHR 0xE3, CHR 0x83, CHR 0x91,
      CHR 0xE3, CHR 0x82, CHR 0xA4, CHR 0xE3, CHR 0x83, CHR 0x91, CHR 0xE3, CHR 0x83, CHR 0xB3,
      CHR 0x31, CHR 0x38, CHR 0xE6, CHR 0xAD, CHR 0xB3, CHR 0x20, CHR 0x41, CHR 0x49,
      CHR 0xE3, CHR 0x81, CHR 0xA1, CHR 0xE3, CHR 0x82, CHR 0x83, CHR 0xE3, CHR 0x82, CHR 0x93]"

definition exampleTitleCN :: string where
  "exampleTitleCN =
     [CHR 0x41, CHR 0x49,
      CHR 0xE3, CHR 0x81, CHR 0xA1, CHR 0xE3, CHR 0x82, CHR 0x83, CHR 0xE3, CHR 0x82, CHR 0x93]"

definition exampleAltTitle :: string where
  "exampleAltTitle =
     [CHR 0xE7, CHR 0xB4, CHR 0xA0, CHR 0xE4, CHR 0xBA, CHR 0xBA, CHR 0xE3, CHR 0x83, CHR 0x91,
      CHR 0xE3, CHR 0x82, CHR 0xA4, CHR 0xE3, CHR 0x83, CHR 0x91, CHR 0xE3, CHR 0x83, CHR 0xB3,
      CHR 0x31, CHR 0x38, CHR 0xE6, CHR 0xAD, CHR 0xB3]"

text \<open>
  A primary title with white space on both sides of what is left when the localized
  title is cut out: a tab and a space in front, a space and U+3000 behind.
\<close>

definition paddedTitle :: string where
  "paddedTitle =
     [CHR 0x09] @ '' Portal Chuansongmen 2 '' @ [CHR 0xE3, CHR 0x80, CHR 0x80]"

text \<open>A game subject as the API returns it, for the examples below.\<close>

definition sampleGame :: DoubanGameSubject where
  "sampleGame =
     \<lparr> g_Title = ''Portal 2 Chuansongmen'', g_TitleCN = ''Chuansongmen'',
       g_ReleaseDate = ''2011-04-19'', g_Developer = [''Valve''],
       g_Publisher = [''Valve'', ''EA''], g_Intro = [], g_Type = ''game'',
       g_Cover = \<lparr> Normal = ''https://img1.doubanio.com/p1.jpg'' \<rparr>, g_Rating = None \<rparr>"

section \<open>The network and the file system\<close>

text \<open>
  What the program sees of one HTTP exchange. \<^verbatim>\<open>client.Do\<close> either fails (time-out,
  connection error) or returns a response. The body of a response is a stream: \<open>Body\<close>
  is the bytes it delivers and \<open>BodyErr\<close> the error that ends it, \<open>None\<close> for a regular
  end of file. \<open>ContentEncoding\<close> is the \<^verbatim>\<open>Content-Encoding\<close> header of the response,
  empty when the server sent the body as it is; a caller that sets \<^verbatim>\<open>Accept-Encoding\<close>
  itself, as \<^verbatim>\<open>fetchRating\<close> does, gets the bytes of \<open>Body\<close> in that encoding, since the
  transport decompresses only what it asked for on its own.
\<close>

record response =
  StatusCode :: int
  ContentType :: string
  ContentEncoding :: string
  Body :: string
  BodyErr :: "string option"

datatype attempt = DoFailed string | DoReturned response

text \<open>
  The world around one call: for each attempt, what \<^verbatim>\<open>client.Do\<close> does; whether
  \<^verbatim>\<open>http.NewRequest\<close> rejects the URL (it depends on the URL only, so on every attempt
  alike); and, for a download, whether \<^verbatim>\<open>os.Create\<close> fails, whether writing to the
  file fails after some bytes, and whether \<^verbatim>\<open>os.Remove\<close> fails.
\<close>

record net =
  newRequestErr :: "string option"
  outcome :: "nat \<Rightarrow> attempt"

record disk =
  createErr :: "string option"
  writeErr :: "(nat \<times> string) option"
  removeErr :: "string option"

type_synonym files = "string \<rightharpoonup> string"

section \<open>The metadata fetch\<close>

text \<open>
  \<^verbatim>\<open>douban.go\<close>, \<^verbatim>\<open>requestAPI\<close>. The variable \<open>err\<close> of the function holds the error of
  the last failed attempt; the loop index \<open>i\<close> counts from 0. The result is paired with
  the number of requests that were sent.
\<close>

datatype cause = Transport string | BadStatus int | ReadFailure string

datatype fetch_error = NewRequestError string | FetchExhausted "cause option"

definition api_maxRetries :: nat where
  "api_maxRetries = 2"

function requestAPI_loop :: "net \<Rightarrow> nat \<Rightarrow> cause option \<Rightarrow> (fetch_error + string) \<times> nat" where
  "requestAPI_loop w i err =
     (if i < api_maxRetries then
        (case newRequestErr w of
           Some reqErr \<Rightarrow> (Inl (NewRequestError reqErr), i)
         | None \<Rightarrow>
            (case outcome w i of
               DoFailed respErr \<Rightarrow> requestAPI_loop w (i + 1) (Some (Transport respErr))
             | DoReturned resp \<Rightarrow>
                 if StatusCode resp \<noteq> 200
                 then requestAPI_loop w (i + 1) (Some (BadStatus (StatusCode resp)))
                 else (case BodyErr resp of
                         Some e \<Rightarrow> requestAPI_loop w (i + 1) (Some (ReadFailure e))
                       | None \<Rightarrow> (Inr (Body resp), i + 1))))
      else (Inl (FetchExhausted err), i))"
  by pat_completeness auto
termination
  by (relation "measure (\<lambda>(w, i, err). api_maxRetries - i)") auto

definition requestAPI :: "net \<Rightarrow> (fetch_error + string) \<times> nat" where
  "requestAPI w = requestAPI_loop w 0 None"

text \<open>
  How \<^verbatim>\<open>requestAPI\<close> judges one attempt: \<open>None\<close> when the attempt succeeds, that is,
  the status is 200 and the body is read to its end, and otherwise the error it records.
\<close>

definition apiFailure :: "attempt \<Rightarrow> cause option" where
  "apiFailure a =
     (case a of
        DoFailed e \<Rightarrow> Some (Transport e)
      | DoReturned resp \<Rightarrow>
          if StatusCode resp \<noteq> 200 then Some (BadStatus (StatusCode resp))
          else (case BodyErr resp of Some e \<Rightarrow> Some (ReadFailure e) | None \<Rightarrow> None))"

section \<open>The rating backfill\<close>

text \<open>
  \<^verbatim>\<open>main.go\<close>, \<^verbatim>\<open>extractRatingFromHTML\<close>. The three patterns, in the order of the source:
  \<^verbatim>\<open><strong[^>]*class="[^"]*rating[^"]*"[^>]*>(\d+\.?\d*)</strong>\<close>,
  \<^verbatim>\<open>property="v:average"[^>]*>(\d+\.?\d*)</strong>\<close> and
  \<^verbatim>\<open>rating_num[^>]*>(\d+\.?\d*)</strong>\<close>.
  \<^verbatim>\<open>strconv.ParseFloat\<close> is a parameter of the model: \<open>None\<close> stands for its error.
\<close>

definition ratingPatterns :: "re list list" where
  \<open>ratingPatterns =
     [[Literal ''<strong'', Star (NoneOf ''>''), Literal ''class="'', Star (NoneOf ''"''),
       Literal ''rating'', Star (NoneOf ''"''), Literal ''"'', Star (NoneOf ''>''), Literal ''>'',
       CapOpen, Plus Digit, Quest (Chr (CHR ''.'')), Star Digit, CapClose, Literal ''</strong>''],
      [Literal ''property="v:average"'', Star (NoneOf ''>''), Literal ''>'',
       CapOpen, Plus Digit, Quest (Chr (CHR ''.'')), Star Digit, CapClose, Literal ''</strong>''],
      [Literal ''rating_num'', Star (NoneOf ''>''), Literal ''>'',
       CapOpen, Plus Digit, Quest (Chr (CHR ''.'')), Star Digit, CapClose, Literal ''</strong>'']]\<close>

fun extractRating_loop :: "(string \<Rightarrow> real option) \<Rightarrow> re list list \<Rightarrow> string \<Rightarrow> real" where
  "extractRating_loop ParseFloat [] html = 0"
| "extractRating_loop ParseFloat (pattern # patterns) html =
     (let matches = FindStringSubmatch pattern html in
      if length matches > 1 then
        (case ParseFloat (matches ! 1) of
           Some rating \<Rightarrow> rating
         | None \<Rightarrow> extractRating_loop ParseFloat patterns html)
      else extractRating_loop ParseFloat patterns html)"

definition extractRatingFromHTML :: "(string \<Rightarrow> real option) \<Rightarrow> string \<Rightarrow> real" where
  "extractRatingFromHTML ParseFloat html = extractRating_loop ParseFloat ratingPatterns html"


text \<open>
  \<^verbatim>\<open>main.go\<close>, \<^verbatim>\<open>fetchRating\<close>: one request, no retry. The body is read until the
  stream ends or fails, and whatever was read is scanned. The function sets the header
  \<^verbatim>\<open>Accept-Encoding: gzip, deflate, br\<close> itself and has no decompression step, so the
  bytes scanned are the bytes of \<open>Body\<close> whatever \<open>ContentEncoding\<close> says.
\<close>

definition fetchRating :: "(string \<Rightarrow> real option) \<Rightarrow> net \<Rightarrow> real" where
  "fetchRating ParseFloat w =
     (case newRequestErr w of
        Some err \<Rightarrow> 0
      | None \<Rightarrow>
         (case outcome w 0 of
            DoFailed err \<Rightarrow> 0
          | DoReturned resp \<Rightarrow>
              if StatusCode resp \<noteq> 200 then 0
              else extractRatingFromHTML ParseFloat (Body resp)))"



text \<open>
  A stand-in for \<^verbatim>\<open>strconv.ParseFloat\<close> in the examples: the exact value of a decimal
  numeral \<open>ddd\<close>, \<open>ddd.\<close> or \<open>ddd.ddd\<close>.
\<close>

definition digitsValue :: "string \<Rightarrow> nat" where
  "digitsValue ds = foldl (\<lambda>n c. 10 * n + (of_char c - 48)) 0 ds"

definition parseDecimal :: "string \<Rightarrow> real option" where
  "parseDecimal s =
     (let ip = takeWhile isDigit s; rest = dropWhile isDigit s in
      if ip = [] then None
      else if rest = [] then Some (real (digitsValue ip))
      else if hd rest = CHR ''.'' \<and> list_all isDigit (tl rest)
      then Some (real (digitsValue ip) + real (digitsValue (tl rest)) / 10 ^ length (tl rest))
      else None)"

section \<open>The asset download\<close>

text \<open>
  \<^verbatim>\<open>main.go\<close>, \<^verbatim>\<open>downloadImage\<close> and \<^verbatim>\<open>downloadJavImage\<close>: the choice of the file
  extension from the \<^verbatim>\<open>Content-Type\<close> header, each as its function writes it.
\<close>

definition imageExt :: "string \<Rightarrow> string" where
  "imageExt contentType =
     (if Contains contentType ''png'' then ''.png''
      else if Contains contentType ''gif'' then ''.gif''
      else if Contains contentType ''webp'' then ''.webp''
      else ''.jpg'')"

definition javImageExt :: "string \<Rightarrow> string" where
  "javImageExt contentType =
     (if Contains contentType ''png'' then ''.png''
      else if Contains contentType ''webp'' then ''.webp''
      else ''.jpg'')"

text \<open>
  \<^verbatim>\<open>filepath.Clean\<close> and \<^verbatim>\<open>filepath.Join\<close> of the standard library, for the slash as
  separator. \<^verbatim>\<open>Clean\<close> reads the path element by element: an empty element and \<open>.\<close>
  are dropped; \<open>..\<close> takes back the last element written when there is one that is not
  itself \<open>..\<close>, is dropped at the root, and is written otherwise; any other element is
  written. The elements written are joined with a slash, after the leading slash of a
  rooted path, and an empty result is \<open>.\<close>. \<^verbatim>\<open>Join\<close> joins its arguments from the first
  non-empty one on with slashes and cleans the result.
\<close>

fun splitSlash :: "string \<Rightarrow> string list" where
  "splitSlash [] = [[]]"
| "splitSlash (c # cs) =
     (if c = CHR ''/'' then [] # splitSlash cs
      else (case splitSlash cs of [] \<Rightarrow> [[c]] | e # es \<Rightarrow> (c # e) # es))"

fun cleanElems :: "bool \<Rightarrow> string list \<Rightarrow> string list \<Rightarrow> string list" where
  "cleanElems rooted out [] = out"
| "cleanElems rooted out (e # es) =
     (if e = [] \<or> e = ''.'' then cleanElems rooted out es
      else if e = ''..'' then
        (if out \<noteq> [] \<and> last out \<noteq> ''..'' then cleanElems rooted (butlast out) es
         else if \<not> rooted then cleanElems rooted (out @ [''..'']) es
         else cleanElems rooted out es)
      else cleanElems rooted (out @ [e]) es)"

definition filepath_Clean :: "string \<Rightarrow> string" where
  "filepath_Clean path =
     (if path = [] then ''.''
      else (let rooted = (hd path = CHR ''/'');
                out = cleanElems rooted [] (splitSlash path)
            in if rooted then ''/'' @ Join out ''/''
               else if out = [] then ''.'' else Join out ''/''))"

definition filepath_Join :: "string \<Rightarrow> string \<Rightarrow> string" where
  "filepath_Join dir name =
     (if dir \<noteq> [] then filepath_Clean (dir @ ''/'' @ name)
      else if name \<noteq> [] then filepath_Clean name
      else [])"

text \<open>
  \<^verbatim>\<open>io.Copy(out, resp.Body)\<close> into the file just created at \<open>path\<close>: the bytes of the
  body are written in order. A failing write leaves the bytes written before it in the
  file; a failing read leaves every byte that was delivered. \<^verbatim>\<open>os.Create\<close> truncates
  an existing file. \<^verbatim>\<open>os.Remove\<close> deletes the file or fails and leaves it; the two
  download functions call it without looking at its result, so only the files
  afterwards are returned.
\<close>

definition os_Create :: "files \<Rightarrow> string \<Rightarrow> files" where
  "os_Create fs path = fs(path \<mapsto> [])"

definition os_Remove :: "disk \<Rightarrow> files \<Rightarrow> string \<Rightarrow> files" where
  "os_Remove d fs path = (case removeErr d of Some err \<Rightarrow> fs | None \<Rightarrow> fs(path := None))"

definition io_Copy :: "disk \<Rightarrow> files \<Rightarrow> string \<Rightarrow> response \<Rightarrow> string option \<times> files" where
  "io_Copy d fs path resp =
     (case writeErr d of
        Some (k, e) \<Rightarrow>
          if k < length (Body resp) then (Some e, fs(path \<mapsto> take k (Body resp)))
          else (case BodyErr resp of
                  Some e' \<Rightarrow> (Some e', fs(path \<mapsto> Body resp))
                | None \<Rightarrow> (None, fs(path \<mapsto> Body resp)))
      | None \<Rightarrow>
          (case BodyErr resp of
             Some e' \<Rightarrow> (Some e', fs(path \<mapsto> Body resp))
           | None \<Rightarrow> (None, fs(path \<mapsto> Body resp))))"

datatype download_error =
    EmptyImageURL
  | RequestError string
  | FailedAfterAttempts nat string
  | FailedStatus int
  | CreateFileFailed string
  | SaveImageFailed string
  | AttemptsExhausted nat

definition dl_maxRetries :: nat where
  "dl_maxRetries = 3"

text \<open>
  The loop of the two download functions, which differ in the extension function only
  (and in the texts of their log lines). \<open>attempt\<close> counts from 1. The result is the
  returned value, the files afterwards, and the number of requests that were sent.
\<close>

function download_loop ::
  "(string \<Rightarrow> string) \<Rightarrow> net \<Rightarrow> disk \<Rightarrow> string \<Rightarrow> string \<Rightarrow> files \<Rightarrow> nat \<Rightarrow> nat
   \<Rightarrow> (download_error + string) \<times> files \<times> nat" where
  "download_loop extOf w d stem imageDir fs attempt sent =
     (if attempt \<le> dl_maxRetries then
        (case newRequestErr w of
           Some err \<Rightarrow>
             if attempt = dl_maxRetries then (Inl (RequestError err), fs, sent)
             else download_loop extOf w d stem imageDir fs (attempt + 1) sent
         | None \<Rightarrow>
            (case outcome w (attempt - 1) of
               DoFailed err \<Rightarrow>
                 if attempt = dl_maxRetries
                 then (Inl (FailedAfterAttempts dl_maxRetries err), fs, sent + 1)
                 else download_loop extOf w d stem imageDir fs (attempt + 1) (sent + 1)
             | DoReturned resp \<Rightarrow>
                 if StatusCode resp \<noteq> 200 then
                   (if attempt = dl_maxRetries
                    then (Inl (FailedStatus (StatusCode resp)), fs, sent + 1)
                    else download_loop extOf w d stem imageDir fs (attempt + 1) (sent + 1))
                 else
                   (let ext = extOf (ContentType resp);
                        filename = stem @ ext;
                        localPath = filepath_Join imageDir filename
                    in case createErr d of
                         Some err \<Rightarrow> (Inl (CreateFileFailed err), fs, sent + 1)
                       | None \<Rightarrow>
                           (case io_Copy d (os_Create fs localPath) localPath resp of
                              (Some err, fs') \<Rightarrow>
                                (Inl (SaveImageFailed err), os_Remove d fs' localPath, sent + 1)
                            | (None, fs') \<Rightarrow> (Inr localPath, fs', sent + 1)))))
      else (Inl (AttemptsExhausted dl_maxRetries), fs, sent))"
  by pat_completeness auto
termination
  by (relation "measure (\<lambda>(extOf, w, d, stem, imageDir, fs, attempt, sent). Suc dl_maxRetries - attempt)")
     auto

text \<open>
  How the download loop judges the outcome of one request: \<open>None\<close> when the response has
  status 200, and otherwise the error with which the function gives up when the attempt
  is the last one.
\<close>

definition downloadFailure :: "attempt \<Rightarrow> download_error option" where
  "downloadFailure a =
     (case a of
        DoFailed err \<Rightarrow> Some (FailedAfterAttempts dl_maxRetries err)
      | DoReturned resp \<Rightarrow>
          if StatusCode resp \<noteq> 200 then Some (FailedStatus (StatusCode resp)) else None)"

definition downloadImage ::
  "net \<Rightarrow> disk \<Rightarrow> files \<Rightarrow> string \<Rightarrow> string \<Rightarrow> string
   \<Rightarrow> (download_error + string) \<times> files \<times> nat" where
  "downloadImage w d fs imageURL subjectID imageDir =
     (if imageURL = [] then (Inl EmptyImageURL, fs, 0)
      else download_loop imageExt w d subjectID imageDir fs 1 0)"

definition downloadJavImage ::
  "net \<Rightarrow> disk \<Rightarrow> files \<Rightarrow> string \<Rightarrow> string \<Rightarrow> string
   \<Rightarrow> (download_error + string) \<times> files \<times> nat" where
  "downloadJavImage w d fs imageURL filename imageDir =
     (if imageURL = [] then (Inl EmptyImageURL, fs, 0)
      else download_loop javImageExt w d filename imageDir fs 1 0)"

section \<open>The subprocess that supplies video metadata\<close>

text \<open>
  \<^verbatim>\<open>main.go\<close>, \<^verbatim>\<open>fetchJavInfoFromPython\<close> and \<^verbatim>\<open>getString\<close>. The values that
  \<^verbatim>\<open>json.Unmarshal\<close> stores in a \<^verbatim>\<open>map[string]interface{}\<close> are the type \<open>json\<close>;
  the decoder itself is a parameter of the model, with \<open>Inl\<close> for its error.
\<close>

datatype json =
    JNull
  | JBool bool
  | JNumber real
  | JString string
  | JArray "json list"
  | JObject "(string \<times> json) list"

definition getString :: "(string \<rightharpoonup> json) \<Rightarrow> string \<Rightarrow> string" where
  "getString m key =
     (case m key of
        Some val \<Rightarrow> (case val of JString str \<Rightarrow> str | _ \<Rightarrow> [])
      | None \<Rightarrow> [])"

type_synonym time = int

record JavMovie =
  j_ID :: nat
  j_Number :: string
  j_Title :: string
  j_Poster :: string
  j_Thumb :: string
  j_Actor :: string
  j_Release :: string
  j_Year :: string
  j_Tag :: string
  j_Mosaic :: string
  j_Runtime :: string
  j_Studio :: string
  j_Publisher :: string
  j_Director :: string
  j_Series :: string
  j_Website :: string
  j_IsFavorite :: bool
  j_WatchedAt :: time
  j_CreatedAt :: time

text \<open>
  The slice expression \<^verbatim>\<open>s[lo:hi]\<close> of Go panics unless \<open>0 \<le> lo \<le> hi \<le> len(s)\<close>;
  \<open>None\<close> is the panic.
\<close>

definition slice :: "string \<Rightarrow> int \<Rightarrow> int \<Rightarrow> string option" where
  "slice s lo hi =
     (if 0 \<le> lo \<and> lo \<le> hi \<and> hi \<le> int (length s)
      then Some (take (nat (hi - lo)) (drop (nat lo) s))
      else None)"

definition startMarker :: string where
  "startMarker = ''__JSON_START__''"

definition endMarker :: string where
  "endMarker = ''__JSON_END__''"

datatype jav_error =
    ScriptFailed string string
  | NoJSONOutput string
  | JSONParseFailed string string

datatype jav_result = RuntimePanic | JavError jav_error | JavInfo JavMovie

text \<open>The struct literal that \<^verbatim>\<open>fetchJavInfoFromPython\<close> builds from the decoded map.\<close>

definition buildJavMovie :: "(string \<rightharpoonup> json) \<Rightarrow> JavMovie" where
  "buildJavMovie result =
     \<lparr> j_ID = 0,
       j_Number = getString result ''number'',
       j_Title = getString result ''title'',
       j_Poster = getString result ''poster'',
       j_Thumb = getString result ''thumb'',
       j_Actor = getString result ''actor'',
       j_Release = getString result ''release'',
       j_Year = getString result ''year'',
       j_Tag = getString result ''tag'',
       j_Mosaic = getString result ''mosaic'',
       j_Runtime = getString result ''runtime'',
       j_Studio = getString result ''studio'',
       j_Publisher = getString result ''publisher'',
       j_Director = getString result ''director'',
       j_Series = getString result ''series'',
       j_Website = getString result ''website'',
       j_IsFavorite = False,
       j_WatchedAt = 0,
       j_CreatedAt = 0 \<rparr>"

text \<open>
  \<open>runErr\<close> and \<open>outputStr\<close> are what \<^verbatim>\<open>cmd.CombinedOutput()\<close> returns: the error of
  a script that could not be run or ended with a failure, and everything it wrote.
\<close>

definition fetchJavInfoFromPython ::
  "(string \<Rightarrow> string + (string \<rightharpoonup> json)) \<Rightarrow> string option \<Rightarrow> string \<Rightarrow> jav_result" where
  "fetchJavInfoFromPython Unmarshal runErr outputStr =
     (case runErr of
        Some err \<Rightarrow> JavError (ScriptFailed err outputStr)
      | None \<Rightarrow>
         (let startIdx = Index outputStr startMarker;
              endIdx = Index outputStr endMarker
          in if startIdx = - 1 \<or> endIdx = - 1 then JavError (NoJSONOutput outputStr)
             else
               (case slice outputStr (startIdx + int (length startMarker)) endIdx of
                  None \<Rightarrow> RuntimePanic
                | Some between \<Rightarrow>
                    (let jsonStr = TrimSpace between in
                     case Unmarshal jsonStr of
                       Inl err \<Rightarrow> JavError (JSONParseFailed err jsonStr)
                     | Inr result \<Rightarrow> JavInfo (buildJavMovie result)))))"

text \<open>
  A decoder for the examples: it knows one JSON text, an object whose \<open>number\<close> is a
  string, whose \<open>year\<close> is a number, and which has no other key.
\<close>

definition sampleUnmarshal :: "string \<Rightarrow> string + (string \<rightharpoonup> json)" where
  \<open>sampleUnmarshal s =
     (if s = ''{"number": "ABC-123", "year": 2020}''
      then Inr [''number'' \<mapsto> JString ''ABC-123'', ''year'' \<mapsto> JNumber 2020]
      else Inl ''invalid character'')\<close>

text \<open>
  Outputs of the script for the examples: the JSON text on a line of its own between the
  markers, after a line of diagnostics; and an output in which a diagnostic line that
  mentions the end marker comes before the start marker.
\<close>

definition sampleJSON :: string where
  \<open>sampleJSON = ''{"number": "ABC-123", "year": 2020}''\<close>

definition sampleOutput :: string where
  "sampleOutput =
     ''fetching ABC-123'' @ [CHR 0x0A] @ ''__JSON_START__'' @ [CHR 0x0A] @ sampleJSON @ [CHR 0x0A]
       @ ''__JSON_END__'' @ [CHR 0x0A]"

definition swappedOutput :: string where
  "swappedOutput =
     ''waiting for __JSON_END__'' @ [CHR 0x0A] @ ''__JSON_START__'' @ sampleJSON @ ''__JSON_END__''"

section \<open>Adding an item\<close>

text \<open>\<^verbatim>\<open>main.go\<close>: the record that is stored, and \<^verbatim>\<open>addMovieHandler\<close>.\<close>

record Movie =
  m_ID :: nat
  m_DoubanID :: string
  m_DoubanURL :: string
  m_Title :: string
  m_AltTitle :: string
  m_Director :: string
  m_PubDate :: string
  m_ImageURL :: string
  m_Rating :: real
  m_Year :: string
  m_Summary :: string
  m_IsFavorite :: bool
  m_WatchedAt :: time
  m_CreatedAt :: time

text \<open>
  \<^verbatim>\<open>extractYear\<close>: the first element of \<^verbatim>\<open>strings.Fields(dateStr)\<close>, the text from
  the first rune that is not white space up to the next white space, or the empty
  string.
\<close>

fun untilSpace :: "string \<Rightarrow> string" where
  "untilSpace [] = []"
| "untilSpace (c # cs) =
     (if 0 < leadingSpace spaceEncodings (c # cs) then [] else c # untilSpace cs)"

definition extractYear :: "string \<Rightarrow> string" where
  "extractYear dateStr = (if dateStr = [] then [] else untilSpace (TrimLeftSpace dateStr))"

text \<open>
  \<^verbatim>\<open>filepath.Base\<close>: the last element of the path, after trailing slashes are
  dropped; \<open>.\<close> for the empty path and \<open>/\<close> for a path of slashes only.
\<close>

definition filepath_Base :: "string \<Rightarrow> string" where
  "filepath_Base path =
     (if path = [] then ''.''
      else (let p = rev (dropWhile (\<lambda>c. c = CHR ''/'') (rev path));
                b = rev (takeWhile (\<lambda>c. c \<noteq> CHR ''/'') (rev p))
            in if b = [] then ''/'' else b))"

text \<open>
  The collaborators of the handler. \<open>clock\<close> gives the successive values of
  \<^verbatim>\<open>time.Now()\<close>, \<open>parseDate\<close> is \<^verbatim>\<open>time.Parse("2006-01-02", s)\<close>, \<open>mediaInfo\<close> is
  what \<^verbatim>\<open>FetchDoubanMediaInfo\<close> returns for a category and an identifier, \<open>lookup\<close>
  what the query for the identifier finds in the database, \<open>dbCreateErr\<close> whether
  \<^verbatim>\<open>db.Create\<close> fails. \<open>ratingNet\<close> is the network as the rating backfill meets it,
  \<open>imageNet\<close> and \<open>imageDisk\<close> the network and the disk as the download meets them.
\<close>

datatype db_lookup = RecordNotFound | DbError string | Found Movie

record world =
  clock :: "nat \<Rightarrow> time"
  parseDate :: "string \<Rightarrow> time option"
  mediaInfo :: "string \<Rightarrow> string \<Rightarrow> string + MediaSubject"
  lookup :: "string \<Rightarrow> db_lookup"
  dbCreateErr :: "string option"
  ratingNet :: net
  imageNet :: net
  imageDisk :: disk
  floatParser :: "string \<Rightarrow> real option"
  globalImageDir :: string

text \<open>
  The calls the handler makes to its collaborators, in the order it makes them. Each
  call returns before the next statement of the handler runs.
\<close>

datatype event =
    FetchInfo string string
  | DbFirst string
  | FetchRating string
  | DownloadImage string string
  | DbSave Movie
  | DbCreate Movie

fun isFetchInfo :: "event \<Rightarrow> bool" where
  "isFetchInfo (FetchInfo t i) = True"
| "isFetchInfo e = False"

fun isFetchRating :: "event \<Rightarrow> bool" where
  "isFetchRating (FetchRating u) = True"
| "isFetchRating e = False"

fun isDownloadImage :: "event \<Rightarrow> bool" where
  "isDownloadImage (DownloadImage u i) = True"
| "isDownloadImage e = False"

datatype handler_error =
    EmptyURL
  | InvalidURL parse_error
  | FetchInfoFailed string
  | DbQueryFailed string
  | SaveFailed string

datatype reply =
    MethodNotAllowed
  | RedirectError handler_error
  | MovieUpdated
  | MovieAdded

text \<open>
  The branch for a record that exists: the watch time and the link are updated, and the
  cover is downloaded when the stored reference is not a local one.
\<close>

definition updateExisting ::
  "world \<Rightarrow> files \<Rightarrow> string \<Rightarrow> string \<Rightarrow> time \<Rightarrow> MediaSubject \<Rightarrow> Movie
   \<Rightarrow> reply \<times> files \<times> event list" where
  "updateExisting w fs doubanURL subjectID watchedAt info existingMovie =
     (let existing1 = existingMovie\<lparr> m_WatchedAt := watchedAt, m_DoubanURL := doubanURL \<rparr> in
      if ImageURL info \<noteq> [] \<and>
         (\<not> HasPrefix (m_ImageURL existing1) ''/images/'' \<or> m_ImageURL existing1 = [])
      then
        (case downloadImage (imageNet w) (imageDisk w) fs (ImageURL info) subjectID
                (globalImageDir w) of
           (Inr localPath, fs', n) \<Rightarrow>
             (let existing2 = existing1\<lparr> m_ImageURL := ''/images/'' @ filepath_Base localPath \<rparr>
              in (MovieUpdated, fs', [DownloadImage (ImageURL info) subjectID, DbSave existing2]))
         | (Inl err, fs', n) \<Rightarrow>
             (MovieUpdated, fs', [DownloadImage (ImageURL info) subjectID, DbSave existing1]))
      else (MovieUpdated, fs, [DbSave existing1]))"

text \<open>
  The branch for a new record, lines 306 to 352: the rating is backfilled when the
  mapped rating is 0, then the cover is downloaded when there is one, then the record
  is created.
\<close>

definition createNew ::
  "world \<Rightarrow> files \<Rightarrow> string \<Rightarrow> string \<Rightarrow> time \<Rightarrow> MediaSubject
   \<Rightarrow> reply \<times> files \<times> event list" where
  "createNew w fs doubanURL subjectID watchedAt info =
     (let year = extractYear (PubDate info);
          (rating, ev1) =
             (if Rating info = 0
              then (fetchRating (floatParser w) (ratingNet w), [FetchRating doubanURL])
              else (Rating info, []));
          (localImageURL, fs', ev2) =
             (if ImageURL info \<noteq> [] then
                (case downloadImage (imageNet w) (imageDisk w) fs (ImageURL info) subjectID
                        (globalImageDir w) of
                   (Inl err, fs', n) \<Rightarrow>
                     (ImageURL info, fs', [DownloadImage (ImageURL info) subjectID])
                 | (Inr localPath, fs', n) \<Rightarrow>
                     (''/images/'' @ filepath_Base localPath, fs',
                      [DownloadImage (ImageURL info) subjectID]))
              else ([], fs, []));
          movie = \<lparr> m_ID = 0, m_DoubanID = subjectID, m_DoubanURL = doubanURL,
                    m_Title = Title info, m_AltTitle = AltTitle info,
                    m_Director = Creator info, m_PubDate = PubDate info,
                    m_ImageURL = localImageURL, m_Rating = rating, m_Year = year,
                    m_Summary = Summary info, m_IsFavorite = False,
                    m_WatchedAt = watchedAt, m_CreatedAt = clock w 1 \<rparr>
      in case dbCreateErr w of
           Some err \<Rightarrow> (RedirectError (SaveFailed err), fs', ev1 @ ev2 @ [DbCreate movie])
         | None \<Rightarrow> (MovieAdded, fs', ev1 @ ev2 @ [DbCreate movie]))"

text \<open>The watch time, lines 243 to 250: the current time unless the form gives a date.\<close>

definition parseWatchedAt :: "world \<Rightarrow> string \<Rightarrow> time" where
  "parseWatchedAt w watchedAtStr =
     (if watchedAtStr \<noteq> [] then
        (case parseDate w watchedAtStr of Some parsed \<Rightarrow> parsed | None \<Rightarrow> clock w 0)
      else clock w 0)"

text \<open>The category is read off the link, lines 252 to 258.\<close>

definition detectSubjectType :: "string \<Rightarrow> string" where
  "detectSubjectType doubanURL =
     (if Contains doubanURL ''book.douban.com'' then ''book''
      else if Contains doubanURL ''www.douban.com/game/'' then ''game''
      else ''movie'')"

definition addMovieHandler ::
  "world \<Rightarrow> files \<Rightarrow> string \<Rightarrow> string \<Rightarrow> string \<Rightarrow> reply \<times> files \<times> event list" where
  "addMovieHandler w fs method doubanURL watchedAtStr =
     (if method \<noteq> ''POST'' then (MethodNotAllowed, fs, [])
      else if doubanURL = [] then (RedirectError EmptyURL, fs, [])
      else
        (let watchedAt = parseWatchedAt w watchedAtStr;
             subjectType = detectSubjectType doubanURL
         in case ParseDoubanURL doubanURL subjectType of
              Inl err \<Rightarrow> (RedirectError (InvalidURL err), fs, [])
            | Inr subjectID \<Rightarrow>
               (case mediaInfo w subjectType subjectID of
                  Inl err \<Rightarrow>
                    (RedirectError (FetchInfoFailed err), fs, [FetchInfo subjectType subjectID])
                | Inr info \<Rightarrow>
                   (case lookup w subjectID of
                      RecordNotFound \<Rightarrow>
                        (case createNew w fs doubanURL subjectID watchedAt info of
                           (r, fs', ev) \<Rightarrow>
                             (r, fs', FetchInfo subjectType subjectID # DbFirst subjectID # ev))
                    | DbError err \<Rightarrow>
                        (RedirectError (DbQueryFailed err), fs,
                         [FetchInfo subjectType subjectID, DbFirst subjectID])
                    | Found existingMovie \<Rightarrow>
                        (case updateExisting w fs doubanURL subjectID watchedAt info
                                existingMovie of
                           (r, fs', ev) \<Rightarrow>
                             (r, fs', FetchInfo subjectType subjectID # DbFirst subjectID # ev))))))"

text \<open>
  The record that the handler hands to \<^verbatim>\<open>db.Create\<close>, read off the calls it made.
\<close>

fun createdMovie :: "event list \<Rightarrow> Movie option" where
  "createdMovie [] = None"
| "createdMovie (DbCreate m # es) = Some m"
| "createdMovie (e # es) = createdMovie es"

text \<open>A world and responses for the examples.\<close>

definition okResponse :: response where
  "okResponse =
     \<lparr> StatusCode = 200, ContentType = ''image/jpeg'', ContentEncoding = [],
       Body = ''JFIF-bytes'', BodyErr = None \<rparr>"

definition ratingPage :: string where
  \<open>ratingPage = ''<strong class="ll rating_num" property="v:average">9.5</strong>''\<close>



definition ratingResponse :: response where
  "ratingResponse =
     \<lparr> StatusCode = 200, ContentType = ''text/html'', ContentEncoding = [],
       Body = ratingPage, BodyErr = None \<rparr>"

text \<open>
  The same page as the server sends it when it honours the \<^verbatim>\<open>Accept-Encoding\<close> header
  of \<^verbatim>\<open>fetchRating\<close>: the 79 bytes of the gzip stream of \<open>ratingPage\<close>.
\<close>

definition gzipRatingPage :: string where
  "gzipRatingPage =
     [CHR 0x1F, CHR 0x8B, CHR 0x08, CHR 0x00, CHR 0x00, CHR 0x00, CHR 0x00, CHR 0x00,
      CHR 0x02, CHR 0x03, CHR 0xB3, CHR 0x29, CHR 0x2E, CHR 0x29, CHR 0xCA, CHR 0xCF,
      CHR 0x4B, CHR 0x57, CHR 0x48, CHR 0xCE, CHR 0x49, CHR 0x2C, CHR 0x2E, CHR 0xB6,
      CHR 0x55, CHR 0xCA, CHR 0xC9, CHR 0x51, CHR 0x28, CHR 0x4A, CHR 0x2C, CHR 0xC9,
      CHR 0xCC, CHR 0x4B, CHR 0x8F, CHR 0xCF, CHR 0x2B, CHR 0xCD, CHR 0x55, CHR 0x52,
      CHR 0x28, CHR 0x28, CHR 0xCA, CHR 0x2F, CHR 0x48, CHR 0x2D, CHR 0x2A, CHR 0xA9,
      CHR 0xB4, CHR 0x55, CHR 0x2A, CHR 0xB3, CHR 0x4A, CHR 0x2C, CHR 0x4B, CHR 0x2D,
      CHR 0x4A, CHR 0x4C, CHR 0x4F, CHR 0x55, CHR 0xB2, CHR 0xB3, CHR 0xD4, CHR 0x33,
      CHR 0xB5, CHR 0xD1, CHR 0x87, CHR 0x68, CHR 0xB3, CHR 0x03, CHR 0x00, CHR 0x5B,
      CHR 0x11, CHR 0xAE, CHR 0x0B, CHR 0x3F, CHR 0x00, CHR 0x00, CHR 0x00]"

definition gzipResponse :: response where
  "gzipResponse = ratingResponse\<lparr> ContentEncoding := ''gzip'', Body := gzipRatingPage \<rparr>"

definition gzipNet :: net where
  "gzipNet = \<lparr> newRequestErr = None, outcome = (\<lambda>n. DoReturned gzipResponse) \<rparr>"



definition brokenBody :: response where
  "brokenBody = okResponse\<lparr> BodyErr := Some ''unexpected EOF'' \<rparr>"

definition brokenThenOkNet :: net where
  "brokenThenOkNet =
     \<lparr> newRequestErr = None,
       outcome = (\<lambda>n. if n = 0 then DoReturned brokenBody else DoReturned okResponse) \<rparr>"

definition timeoutNet :: net where
  "timeoutNet = \<lparr> newRequestErr = None, outcome = (\<lambda>n. DoFailed ''timeout'') \<rparr>"

definition gifNet :: net where
  "gifNet =
     \<lparr> newRequestErr = None,
       outcome = (\<lambda>n. DoReturned (okResponse\<lparr> ContentType := ''image/gif'' \<rparr>)) \<rparr>"

definition okNet :: net where
  "okNet = \<lparr> newRequestErr = None, outcome = (\<lambda>n. DoReturned okResponse) \<rparr>"

definition okDisk :: disk where
  "okDisk = \<lparr> createErr = None, writeErr = None, removeErr = None \<rparr>"




definition sampleInfo :: MediaSubject where
  "sampleInfo =
     \<lparr> Title = ''Forrest Gump'', AltTitle = [], Creator = ''Robert Zemeckis'', Press = ''USA'',
       PubDate = ''1994-06-23 (USA)'', Summary = [],
       ImageURL = ''https://img1.doubanio.com/p1.jpg'', Rating = 0 \<rparr>"

definition sampleWorld :: world where
  \<open>sampleWorld =
     \<lparr> clock = (\<lambda>n. 1000 + int n),
       parseDate = (\<lambda>s. None),
       mediaInfo = (\<lambda>t i. Inr sampleInfo),
       lookup = (\<lambda>i. RecordNotFound),
       dbCreateErr = None,
       ratingNet = \<lparr> newRequestErr = None, outcome = (\<lambda>n. DoReturned ratingResponse) \<rparr>,
       imageNet = okNet,
       imageDisk = okDisk,
       floatParser = parseDecimal,
       globalImageDir = ''images'' \<rparr>\<close>

definition sampleURL :: string where
  "sampleURL = ''https://movie.douban.com/subject/1292052/''"

text \<open>
  The same world with a rating in the answer of the API, and with a network on which
  every image request times out.
\<close>

definition ratedWorld :: world where
  "ratedWorld = sampleWorld\<lparr> mediaInfo := (\<lambda>t i. Inr (sampleInfo\<lparr> Rating := 94 / 10 \<rparr>)) \<rparr>"

definition offlineWorld :: world where
  "offlineWorld = sampleWorld\<lparr> imageNet := timeoutNet \<rparr>"

section \<open>Properties of the string functions\<close>

lemma HasPrefix_iff: "HasPrefix s p \<longleftrightarrow> (\<exists>r. s = p @ r)"
  by (induction s p rule: HasPrefix.induct) auto

lemma Index_ge: "- 1 \<le> Index s sub"
  by (induction s) (auto simp: Let_def)

lemma Index_le: "Index s sub \<le> int (length s)"
  by (induction s) (auto simp: Let_def)

lemma Index_occurs: "0 \<le> Index s sub \<Longrightarrow> HasPrefix (drop (nat (Index s sub)) s) sub"
proof (induction s)
  case Nil
  then show ?case by (auto split: if_splits)
next
  case (Cons c cs)
  then show ?case
    by (auto simp: Let_def nat_add_distrib split: if_splits)
qed

lemma Index_first: "HasPrefix (drop j s) sub \<Longrightarrow> j \<le> length s \<Longrightarrow> 0 \<le> Index s sub \<and> nat (Index s sub) \<le> j"
proof (induction s arbitrary: j)
  case Nil
  then show ?case by (cases sub) auto
next
  case (Cons c cs)
  show ?case
  proof (cases "HasPrefix (c # cs) sub")
    case True
    then show ?thesis by simp
  next
    case False
    with Cons.prems obtain k where k: "j = Suc k" by (cases j) auto
    with Cons.prems have "HasPrefix (drop k cs) sub" "k \<le> length cs" by auto
    from Cons.IH[OF this] False k show ?thesis by (auto simp: Let_def)
  qed
qed

lemma Index_split:
  assumes "0 \<le> Index s sub"
  shows "s = take (nat (Index s sub)) s @ sub @ drop (nat (Index s sub) + length sub) s"
proof -
  from Index_occurs[OF assms] obtain r where r: "drop (nat (Index s sub)) s = sub @ r"
    by (auto simp: HasPrefix_iff)
  have "drop (nat (Index s sub) + length sub) s = drop (length sub) (drop (nat (Index s sub)) s)"
    by (simp add: add.commute)
  also have "\<dots> = r" using r by simp
  finally have "take (nat (Index s sub)) s @ sub @ drop (nat (Index s sub) + length sub) s
      = take (nat (Index s sub)) s @ drop (nat (Index s sub)) s" using r by simp
  then show ?thesis by simp
qed

lemma Index_least:
  assumes "s = p @ sub @ q"
  shows "0 \<le> Index s sub \<and> nat (Index s sub) \<le> length p"
proof -
  have "HasPrefix (drop (length p) s) sub" using assms by (simp add: HasPrefix_iff)
  moreover have "length p \<le> length s" using assms by simp
  ultimately show ?thesis by (rule Index_first)
qed

lemma Contains_iff: "Contains s sub \<longleftrightarrow> (\<exists>p q. s = p @ sub @ q)"
proof
  assume "Contains s sub"
  then have "0 \<le> Index s sub" by (simp add: Contains_def)
  from Index_split[OF this] show "\<exists>p q. s = p @ sub @ q" by blast
next
  assume "\<exists>p q. s = p @ sub @ q"
  then obtain p q where "s = p @ sub @ q" by blast
  from Index_least[OF this] show "Contains s sub" by (simp add: Contains_def)
qed

lemma Replace1_first:
  assumes "Contains s old"
  shows "\<exists>p q. s = p @ old @ q \<and> (\<forall>p' q'. s = p' @ old @ q' \<longrightarrow> length p \<le> length p')
           \<and> Replace1 s old [] = p @ q"
proof -
  let ?i = "nat (Index s old)"
  from assms have i: "0 \<le> Index s old" by (simp add: Contains_def)
  have split: "s = take ?i s @ old @ drop (?i + length old) s" by (rule Index_split[OF i])
  have len: "length (take ?i s) = ?i" using Index_le[of s old] i by simp
  have least: "\<forall>p' q'. s = p' @ old @ q' \<longrightarrow> length (take ?i s) \<le> length p'"
    using Index_least len by auto
  have rep: "Replace1 s old [] = take ?i s @ drop (?i + length old) s"
  proof (cases "old = []")
    case True
    then show ?thesis by (simp add: Replace1_def)
  next
    case False
    then show ?thesis using i by (simp add: Replace1_def Let_def)
  qed
  from split least rep show ?thesis by blast
qed

lemma HasPrefix_append [simp]: "HasPrefix (p @ r) p"
  by (simp add: HasPrefix_iff)

text \<open>
  \<^verbatim>\<open>TrimSpace\<close> removes encodings of white space from the two ends and nothing else,
  and what it returns neither starts nor ends with one.
\<close>

lemma leadingSpace_found:
  assumes "leadingSpace es s \<noteq> 0"
  shows "\<exists>e \<in> set es. s = e @ drop (leadingSpace es s) s \<and> length e = leadingSpace es s"
  using assms
proof (induction es)
  case Nil
  then show ?case by simp
next
  case (Cons e es)
  show ?case
  proof (cases "HasPrefix s e")
    case True
    then obtain r where "s = e @ r" by (auto simp: HasPrefix_iff)
    with True show ?thesis by auto
  next
    case False
    with Cons show ?thesis by auto
  qed
qed

lemma trailingSpace_found:
  assumes "trailingSpace es s \<noteq> 0"
  shows "\<exists>e \<in> set es. s = take (length s - trailingSpace es s) s @ e \<and>
           length e = trailingSpace es s"
  using assms
proof (induction es)
  case Nil
  then show ?case by simp
next
  case (Cons e es)
  show ?case
  proof (cases "HasSuffix s e")
    case True
    then obtain r where "rev s = rev e @ r" by (auto simp: HasSuffix_def HasPrefix_iff)
    then have "s = rev r @ e" by (metis rev_append rev_rev_ident)
    with True show ?thesis by auto
  next
    case False
    with Cons show ?thesis by auto
  qed
qed

lemma TrimLeftSpace_removes:
  "\<exists>ls. set ls \<subseteq> set spaceEncodings \<and> s = concat ls @ TrimLeftSpace s"
proof (induction s rule: TrimLeftSpace.induct)
  case (1 s)
  let ?n = "leadingSpace spaceEncodings s"
  show ?case
  proof (cases "?n = 0 \<or> length s < ?n")
    case True
    then have "TrimLeftSpace s = s" by (subst TrimLeftSpace.simps) (simp del: TrimLeftSpace.simps)
    then have "set [] \<subseteq> set spaceEncodings \<and> s = concat [] @ TrimLeftSpace s" by simp
    then show ?thesis by blast
  next
    case False
    then have t: "TrimLeftSpace s = TrimLeftSpace (drop ?n s)"
      by (subst TrimLeftSpace.simps) (simp del: TrimLeftSpace.simps add: Let_def)
    from False leadingSpace_found[of spaceEncodings s] obtain e where
      e: "e \<in> set spaceEncodings" "s = e @ drop ?n s" by auto
    from "1.IH"[OF refl False] obtain ls where
      ls: "set ls \<subseteq> set spaceEncodings" "drop ?n s = concat ls @ TrimLeftSpace (drop ?n s)"
      by blast
    have "set (e # ls) \<subseteq> set spaceEncodings" using e(1) ls(1) by simp
    moreover have "s = concat (e # ls) @ TrimLeftSpace s"
      using e(2) ls(2) t by (metis append_assoc concat.simps(2))
    ultimately show ?thesis by blast
  qed
qed

lemma TrimRightSpace_removes:
  "\<exists>rs. set rs \<subseteq> set spaceEncodings \<and> s = TrimRightSpace s @ concat rs"
proof (induction s rule: TrimRightSpace.induct)
  case (1 s)
  let ?n = "trailingSpace spaceEncodings s"
  show ?case
  proof (cases "?n = 0 \<or> length s < ?n")
    case True
    then have "TrimRightSpace s = s"
      by (subst TrimRightSpace.simps) (simp del: TrimRightSpace.simps)
    then have "set [] \<subseteq> set spaceEncodings \<and> s = TrimRightSpace s @ concat []" by simp
    then show ?thesis by blast
  next
    case False
    then have t: "TrimRightSpace s = TrimRightSpace (take (length s - ?n) s)"
      by (subst TrimRightSpace.simps) (simp del: TrimRightSpace.simps add: Let_def)
    from False trailingSpace_found[of spaceEncodings s] obtain e where
      e: "e \<in> set spaceEncodings" "s = take (length s - ?n) s @ e" by auto
    from "1.IH"[OF refl False] obtain rs where
      rs: "set rs \<subseteq> set spaceEncodings"
        "take (length s - ?n) s = TrimRightSpace (take (length s - ?n) s) @ concat rs"
      by blast
    have "set (rs @ [e]) \<subseteq> set spaceEncodings" using e(1) rs(1) by simp
    moreover have "s = TrimRightSpace s @ concat (rs @ [e])"
      using e(2) rs(2) t by (metis append_assoc concat_append concat.simps append_Nil2)
    ultimately show ?thesis by blast
  qed
qed

lemma TrimSpace_removes:
  "\<exists>ls rs. set ls \<subseteq> set spaceEncodings \<and> set rs \<subseteq> set spaceEncodings \<and>
           s = concat ls @ TrimSpace s @ concat rs"
proof -
  from TrimLeftSpace_removes[of s] obtain ls where
    ls: "set ls \<subseteq> set spaceEncodings" "s = concat ls @ TrimLeftSpace s" by blast
  from TrimRightSpace_removes[of "TrimLeftSpace s"] obtain rs where
    rs: "set rs \<subseteq> set spaceEncodings" "TrimLeftSpace s = TrimSpace s @ concat rs"
    unfolding TrimSpace_def by blast
  from ls rs show ?thesis by metis
qed


lemma TrimLeftSpace_done: "leadingSpace spaceEncodings (TrimLeftSpace s) = 0"
proof (induction s rule: TrimLeftSpace.induct)
  case (1 s)
  let ?n = "leadingSpace spaceEncodings s"
  show ?case
  proof (cases "?n = 0 \<or> length s < ?n")
    case True
    then have t: "TrimLeftSpace s = s"
      by (subst TrimLeftSpace.simps) (simp del: TrimLeftSpace.simps)
    show ?thesis
    proof (rule ccontr)
      assume n: "leadingSpace spaceEncodings (TrimLeftSpace s) \<noteq> 0"
      with t have "?n \<noteq> 0" by simp
      from leadingSpace_found[OF this] obtain e where "s = e @ drop ?n s" "length e = ?n" by blast
      then have "?n \<le> length s" by (metis length_append le_add1)
      with True \<open>?n \<noteq> 0\<close> show False by simp
    qed
  next
    case False
    then have "TrimLeftSpace s = TrimLeftSpace (drop ?n s)"
      by (subst TrimLeftSpace.simps) (simp del: TrimLeftSpace.simps add: Let_def)
    with "1.IH"[OF refl False] show ?thesis by simp
  qed
qed

lemma TrimRightSpace_done: "trailingSpace spaceEncodings (TrimRightSpace s) = 0"
proof (induction s rule: TrimRightSpace.induct)
  case (1 s)
  let ?n = "trailingSpace spaceEncodings s"
  show ?case
  proof (cases "?n = 0 \<or> length s < ?n")
    case True
    then have t: "TrimRightSpace s = s"
      by (subst TrimRightSpace.simps) (simp del: TrimRightSpace.simps)
    show ?thesis
    proof (rule ccontr)
      assume n: "trailingSpace spaceEncodings (TrimRightSpace s) \<noteq> 0"
      with t have "?n \<noteq> 0" by simp
      from trailingSpace_found[OF this] obtain e where
        "s = take (length s - ?n) s @ e" "length e = ?n" by blast
      then have "?n \<le> length s" by (metis length_append le_add2)
      with True \<open>?n \<noteq> 0\<close> show False by simp
    qed
  next
    case False
    then have "TrimRightSpace s = TrimRightSpace (take (length s - ?n) s)"
      by (subst TrimRightSpace.simps) (simp del: TrimRightSpace.simps add: Let_def)
    with "1.IH"[OF refl False] show ?thesis by simp
  qed
qed

lemma leadingSpace_longer:
  assumes "leadingSpace es p \<noteq> 0"
  shows "leadingSpace es (p @ r) \<noteq> 0"
  using assms
proof (induction es)
  case Nil
  then show ?case by simp
next
  case (Cons e es)
  show ?case
  proof (cases "HasPrefix p e")
    case True
    then have "HasPrefix (p @ r) e" by (auto simp: HasPrefix_iff)
    with True Cons.prems show ?thesis by simp
  next
    case False
    then have ne: "e \<noteq> []" by (cases e) auto
    from False Cons have "leadingSpace es (p @ r) \<noteq> 0" by simp
    with ne show ?thesis by simp
  qed
qed

lemma TrimSpace_trimmed:
  "leadingSpace spaceEncodings (TrimSpace s) = 0 \<and> trailingSpace spaceEncodings (TrimSpace s) = 0"
proof -
  from TrimRightSpace_removes[of "TrimLeftSpace s"] obtain rs where
    "TrimLeftSpace s = TrimSpace s @ concat rs" unfolding TrimSpace_def by blast
  with leadingSpace_longer[of spaceEncodings "TrimSpace s" "concat rs"] TrimLeftSpace_done[of s]
  have "leadingSpace spaceEncodings (TrimSpace s) = 0" by auto
  moreover have "trailingSpace spaceEncodings (TrimSpace s) = 0"
    unfolding TrimSpace_def by (rule TrimRightSpace_done)
  ultimately show ?thesis by blast
qed

lemma HasSuffix_iff: "HasSuffix s e \<longleftrightarrow> (\<exists>t. s = t @ e)"
proof
  assume "HasSuffix s e"
  then obtain r where "rev s = rev e @ r" by (auto simp: HasSuffix_def HasPrefix_iff)
  then have "rev (rev s) = rev (rev e @ r)" by simp
  then have "s = rev r @ e" by simp
  then show "\<exists>t. s = t @ e" by blast
next
  assume "\<exists>t. s = t @ e"
  then obtain t where "s = t @ e" by blast
  then have "rev s = rev e @ rev t" by simp
  then show "HasSuffix s e" by (auto simp: HasSuffix_def HasPrefix_iff)
qed

lemma leadingSpace_none:
  assumes "[] \<notin> set es" and "leadingSpace es s = 0"
  shows "\<forall>e \<in> set es. \<not> HasPrefix s e"
  using assms by (induction es) (auto split: if_splits)

lemma trailingSpace_none:
  assumes "[] \<notin> set es" and "trailingSpace es s = 0"
  shows "\<forall>e \<in> set es. \<not> HasSuffix s e"
  using assms by (induction es) (auto split: if_splits)

lemma spaceEncodings_nonempty: "[] \<notin> set spaceEncodings"
  by (simp add: spaceEncodings_def)

text \<open>No encoding of white space is at either end of what \<^verbatim>\<open>TrimSpace\<close> returns.\<close>

lemma TrimSpace_ends:
  "\<forall>e \<in> set spaceEncodings. \<forall>t. TrimSpace s \<noteq> e @ t \<and> TrimSpace s \<noteq> t @ e"
proof (intro ballI allI)
  fix e t
  assume e: "e \<in> set spaceEncodings"
  from TrimSpace_trimmed[of s] leadingSpace_none[OF spaceEncodings_nonempty] e
  have "\<not> HasPrefix (TrimSpace s) e" by blast
  moreover from TrimSpace_trimmed[of s] trailingSpace_none[OF spaceEncodings_nonempty] e
  have "\<not> HasSuffix (TrimSpace s) e" by blast
  ultimately show "TrimSpace s \<noteq> e @ t \<and> TrimSpace s \<noteq> t @ e"
    by (auto simp: HasPrefix_iff HasSuffix_iff)
qed

section \<open>Properties of the URL pattern\<close>

lemma slash_not_digit [simp]: "\<not> isDigit (CHR ''/'')"
  by (simp add: isDigit_def)

lemma match_digits_tail:
  "matchHere [Star Digit, CapClose, Quest (Chr (CHR ''/'')), EndText] b opn cap s =
     (if dropWhile isDigit s = [] \<or> dropWhile isDigit s = ''/''
      then Some (take (length opn - length (dropWhile isDigit s)) opn, [])
      else None)"
proof (induction s arbitrary: b cap)
  case Nil
  show ?case by simp
next
  case (Cons x xs)
  show ?case
  proof (cases "isDigit x")
    case True
    then have "x \<noteq> CHR ''/''" by auto
    with True show ?thesis by (simp add: Cons.IH)
  next
    case False
    then show ?thesis by (cases xs) auto
  qed
qed

lemma match_url_tail:
  "matchHere [CapOpen, Plus Digit, CapClose, Quest (Chr (CHR ''/'')), EndText] b opn cap s =
     (if takeWhile isDigit s \<noteq> [] \<and> (dropWhile isDigit s = [] \<or> dropWhile isDigit s = ''/'')
      then Some (takeWhile isDigit s, [])
      else None)"
proof (cases s)
  case Nil
  then show ?thesis by simp
next
  case (Cons x xs)
  have "take (length (x # xs) - length (dropWhile isDigit xs)) (x # xs) = x # takeWhile isDigit xs"
  proof -
    have "length xs = length (takeWhile isDigit xs) + length (dropWhile isDigit xs)"
      by (metis length_append takeWhile_dropWhile_id)
    then have "length (x # xs) - length (dropWhile isDigit xs) = Suc (length (takeWhile isDigit xs))"
      by simp
    moreover have "take (length (takeWhile isDigit xs)) xs = takeWhile isDigit xs"
      by (metis append_eq_conv_conj takeWhile_dropWhile_id)
    ultimately show ?thesis by simp
  qed
  with Cons show ?thesis by (simp add: match_digits_tail)
qed

lemma tail_shape:
  "(takeWhile isDigit s \<noteq> [] \<and> (dropWhile isDigit s = [] \<or> dropWhile isDigit s = ''/'') \<and> ds = takeWhile isDigit s)
   \<longleftrightarrow> (\<exists>t. (t = [] \<or> t = ''/'') \<and> ds \<noteq> [] \<and> (\<forall>c \<in> set ds. isDigit c) \<and> s = ds @ t)"
  (is "?L \<longleftrightarrow> ?R")
proof
  assume L: ?L
  then have "s = ds @ dropWhile isDigit s" "ds \<noteq> []" "\<forall>c \<in> set ds. isDigit c"
    by (auto dest: set_takeWhileD)
  with L show ?R by blast
next
  assume ?R
  then obtain t where t: "t = [] \<or> t = ''/''" "ds \<noteq> []" "\<forall>c \<in> set ds. isDigit c" "s = ds @ t"
    by blast
  then have "takeWhile isDigit s = ds" "dropWhile isDigit s = t"
    by (auto simp: takeWhile_append2 dropWhile_append2 takeWhile_eq_all_conv)
  with t show ?L by auto
qed

lemma mh_LiteralE:
  assumes "matchHere (Literal l # rs) b opn cap s = Some r"
  shows "\<exists>s'. s = l @ s' \<and> matchHere rs (b \<and> l = []) opn cap s' = Some r"
proof -
  from assms have p: "HasPrefix s l" by (simp split: if_splits)
  then obtain s' where s': "s = l @ s'" by (auto simp: HasPrefix_iff)
  with assms p have "matchHere rs (b \<and> l = []) opn cap s' = Some r" by simp
  with s' show ?thesis by blast
qed

lemma mh_AlternateE:
  assumes "matchHere (Alternate ls # rs) b opn cap s = Some r"
  shows "\<exists>l \<in> set ls. \<exists>s'. s = l @ s' \<and> matchHere rs (b \<and> l = []) opn cap s' = Some r"
  using assms
proof (induction ls)
  case Nil
  then show ?case by simp
next
  case (Cons l ls)
  show ?case
  proof (cases "HasPrefix s l \<and> matchHere rs (b \<and> l = []) opn cap (drop (length l) s) = Some r")
    case True
    then obtain s' where "s = l @ s'" by (auto simp: HasPrefix_iff)
    with True show ?thesis by auto
  next
    case False
    with Cons.prems have "matchHere (Alternate ls # rs) b opn cap s = Some r"
      by (auto split: if_splits option.splits)
    from Cons.IH[OF this] show ?thesis by auto
  qed
qed

lemma match_url_fwd:
  assumes "matchHere urlPattern True opn cap u = Some (ds, rest)"
  shows "rest = [] \<and> (\<exists>host. subjectURL u host ds)"
proof -
  let ?r6 = "[CapOpen, Plus Digit, CapClose, Quest (Chr (CHR ''/'')), EndText]"
  let ?r5 = "Literal ''/'' # ?r6"
  let ?r4 = "Alternate [''game'', ''subject''] # ?r5"
  let ?r3 = "Literal ''/'' # ?r4"
  let ?r2 = "Literal ''.douban.com'' # ?r3"
  let ?r1 = "Alternate [''www'', ''book'', ''movie''] # ?r2"
  from assms have "matchHere (Literal ''https://'' # ?r1) True opn cap u = Some (ds, rest)"
    by (simp add: urlPattern_def)
  from mh_LiteralE[OF this] obtain s1 b1 where s1: "u = ''https://'' @ s1"
    and "matchHere ?r1 b1 opn cap s1 = Some (ds, rest)"
    by blast
  from mh_AlternateE[OF this(2)] obtain h s2 b2 where h: "h \<in> set [''www'', ''book'', ''movie'']"
    and s2: "s1 = h @ s2"
    and "matchHere ?r2 b2 opn cap s2 = Some (ds, rest)"
    by blast
  from mh_LiteralE[OF this(3)] obtain s3 b3 where s3: "s2 = ''.douban.com'' @ s3"
    and "matchHere ?r3 b3 opn cap s3 = Some (ds, rest)"
    by blast
  from mh_LiteralE[OF this(2)] obtain s4 b4 where s4: "s3 = ''/'' @ s4"
    and "matchHere ?r4 b4 opn cap s4 = Some (ds, rest)"
    by blast
  from mh_AlternateE[OF this(2)] obtain k s5 b5 where k: "k \<in> set [''game'', ''subject'']"
    and s5: "s4 = k @ s5"
    and "matchHere ?r5 b5 opn cap s5 = Some (ds, rest)"
    by blast
  from mh_LiteralE[OF this(3)] obtain s6 b6 where s6: "s5 = ''/'' @ s6"
    and "matchHere ?r6 b6 opn cap s6 = Some (ds, rest)"
    by blast
  from this(2) have tl: "takeWhile isDigit s6 \<noteq> [] \<and> (dropWhile isDigit s6 = [] \<or> dropWhile isDigit s6 = ''/'') \<and> ds = takeWhile isDigit s6"
    and rest: "rest = []"
    unfolding match_url_tail by (simp_all split: if_splits)
  from tl[unfolded tail_shape] obtain t where t: "t = [] \<or> t = ''/''" "ds \<noteq> []" "\<forall>c \<in> set ds. isDigit c" "s6 = ds @ t"
    by blast
  have "u = ''https://'' @ (h @ ''.douban.com'') @ ''/'' @ k @ ''/'' @ ds @ t"
    using s1 s2 s3 s4 s5 s6 t(4) by simp
  moreover have "h @ ''.douban.com'' = ''www.douban.com'' \<or> h @ ''.douban.com'' = ''book.douban.com''
      \<or> h @ ''.douban.com'' = ''movie.douban.com''"
    using h by simp
  moreover have "k = ''game'' \<or> k = ''subject''" using k by simp
  ultimately have "subjectURL u (h @ ''.douban.com'') ds"
    unfolding subjectURL_def using t(1,2,3) by blast
  with rest show ?thesis by blast
qed

lemma mh_Literal_append:
  "matchHere (Literal l # rs) b opn cap (l @ s') = matchHere rs (b \<and> l = []) opn cap s'"
  by simp

lemma mh_Alternate_host:
  assumes "h = ''www'' \<or> h = ''book'' \<or> h = ''movie''"
  shows "matchHere (Alternate [''www'', ''book'', ''movie''] # rs) b opn cap (h @ s') =
         matchHere rs False opn cap s'"
proof -
  from assms consider "h = ''www''" | "h = ''book''" | "h = ''movie''" by blast
  then show ?thesis
  proof cases
    case 1
    then show ?thesis by (simp split: option.splits)
  next
    case 2
    then show ?thesis by (simp split: option.splits)
  next
    case 3
    then show ?thesis by (simp split: option.splits)
  qed
qed

lemma mh_Alternate_kind:
  assumes "k = ''game'' \<or> k = ''subject''"
  shows "matchHere (Alternate [''game'', ''subject''] # rs) b opn cap (k @ s') =
         matchHere rs False opn cap s'"
proof -
  from assms consider "k = ''game''" | "k = ''subject''" by blast
  then show ?thesis
  proof cases
    case 1
    then show ?thesis by (simp split: option.splits)
  next
    case 2
    then show ?thesis by (simp split: option.splits)
  qed
qed


lemma match_url_bwd:
  assumes "subjectURL u host ds"
  shows "matchHere urlPattern True opn cap u = Some (ds, [])"
proof -
  let ?r6 = "[CapOpen, Plus Digit, CapClose, Quest (Chr (CHR ''/'')), EndText]"
  let ?r5 = "Literal ''/'' # ?r6"
  let ?r4 = "Alternate [''game'', ''subject''] # ?r5"
  let ?r3 = "Literal ''/'' # ?r4"
  let ?r2 = "Literal ''.douban.com'' # ?r3"
  let ?r1 = "Alternate [''www'', ''book'', ''movie''] # ?r2"
  from assms obtain k t where host: "host = ''www.douban.com'' \<or> host = ''book.douban.com'' \<or> host = ''movie.douban.com''"
    and k: "k = ''game'' \<or> k = ''subject''" and t: "t = [] \<or> t = ''/''"
    and ds: "ds \<noteq> []" "\<forall>c \<in> set ds. isDigit c"
    and u: "u = ''https://'' @ host @ ''/'' @ k @ ''/'' @ ds @ t"
    unfolding subjectURL_def by blast
  from host obtain h where h: "h = ''www'' \<or> h = ''book'' \<or> h = ''movie''" and hh: "host = h @ ''.douban.com''"
    by fastforce
  have tw: "takeWhile isDigit (ds @ t) = ds" and dw: "dropWhile isDigit (ds @ t) = t"
    using ds t by (auto simp: takeWhile_append2 dropWhile_append2)
  have u': "u = ''https://'' @ (h @ (''.douban.com'' @ (''/'' @ (k @ (''/'' @ (ds @ t))))))"
    unfolding u hh by simp
  have "matchHere urlPattern True opn cap u = matchHere (Literal ''https://'' # ?r1) True opn cap u"
    by (simp add: urlPattern_def)
  also have "\<dots> = matchHere ?r1 (True \<and> ''https://'' = []) opn cap (h @ (''.douban.com'' @ (''/'' @ (k @ (''/'' @ (ds @ t))))))"
    unfolding u' by (rule mh_Literal_append)
  also have "\<dots> = matchHere ?r2 False opn cap (''.douban.com'' @ (''/'' @ (k @ (''/'' @ (ds @ t)))))"
    by (rule mh_Alternate_host[OF h])
  also have "\<dots> = matchHere ?r3 (False \<and> ''.douban.com'' = []) opn cap (''/'' @ (k @ (''/'' @ (ds @ t))))"
    by (rule mh_Literal_append)
  also have "\<dots> = matchHere ?r4 ((False \<and> ''.douban.com'' = []) \<and> ''/'' = []) opn cap (k @ (''/'' @ (ds @ t)))"
    by (rule mh_Literal_append)
  also have "\<dots> = matchHere ?r5 False opn cap (''/'' @ (ds @ t))"
    by (rule mh_Alternate_kind[OF k])
  also have "\<dots> = matchHere ?r6 (False \<and> ''/'' = []) opn cap (ds @ t)"
    by (rule mh_Literal_append)
  also have "\<dots> = Some (ds, [])"
    unfolding match_url_tail tw dw using ds t by auto
  finally show ?thesis .
qed

lemma findFrom_anchored: "findFrom (BeginText # rs) False s = []"
  by (induction s) auto

lemma Find_urlPattern:
  "FindStringSubmatch urlPattern u =
     (case matchHere urlPattern True [] [] u of
        Some (cap, rest) \<Rightarrow> [take (length u - length rest) u, cap]
      | None \<Rightarrow> [])"
proof -
  have "findFrom urlPattern False s = []" for s
    unfolding urlPattern_def by (rule findFrom_anchored)
  then show ?thesis
    by (cases u) (auto simp: FindStringSubmatch_def split: option.splits)
qed

lemma Find_subjectURL:
  assumes "subjectURL u host ds"
  shows "FindStringSubmatch urlPattern u = [u, ds]"
  by (simp add: Find_urlPattern match_url_bwd[OF assms])

lemma Find_not_subjectURL:
  assumes "\<not> (\<exists>host ds. subjectURL u host ds)"
  shows "FindStringSubmatch urlPattern u = []"
proof (cases "matchHere urlPattern True [] [] u")
  case None
  then show ?thesis by (simp add: Find_urlPattern)
next
  case (Some r)
  obtain ds rest where "r = (ds, rest)" by (cases r)
  with Some match_url_fwd assms show ?thesis by blast
qed

lemma digit_not_special:
  assumes "isDigit c"
  shows "\<not> isCTL c" "c \<notin> set ''/?#:''"
  using assms unfolding isDigit_def isCTL_def by auto

lemma url_Hostname_subjectURL:
  assumes "subjectURL u host ds"
  shows "url_Hostname u = Some host"
proof -
  from assms obtain k t where host: "host = ''www.douban.com'' \<or> host = ''book.douban.com'' \<or> host = ''movie.douban.com''"
    and k: "k = ''game'' \<or> k = ''subject''" and t: "t = [] \<or> t = ''/''"
    and ds: "\<forall>c \<in> set ds. isDigit c"
    and u: "u = ''https://'' @ host @ ''/'' @ k @ ''/'' @ ds @ t"
    unfolding subjectURL_def by blast
  have ctl_ds: "\<not> list_ex isCTL ds"
    using ds digit_not_special(1) by (auto simp: list_ex_iff)
  have ctl_t: "\<not> list_ex isCTL t" using t by (auto simp: isCTL_def)
  have ctl_k: "\<not> list_ex isCTL k" using k by (auto simp: isCTL_def)
  have ctl_h: "\<not> list_ex isCTL host" using host by (auto simp: isCTL_def)
  have ctl: "\<not> list_ex isCTL u"
    unfolding u using ctl_ds ctl_t ctl_k ctl_h by (auto simp: list_ex_iff isCTL_def)
  have idx: "Index u ''://'' = 5"
    unfolding u by simp
  have tw: "takeWhile (\<lambda>c. c \<notin> set ''/?#:'') (host @ ''/'' @ r) = host" for r
    using host by auto
  have dr: "drop 8 u = host @ ''/'' @ (k @ ''/'' @ ds @ t)" unfolding u by simp
  have "url_Hostname u = Some (takeWhile (\<lambda>c. c \<notin> set ''/?#:'') (drop 8 u))"
    using ctl by (simp add: url_Hostname_def idx)
  also have "\<dots> = Some host"
    unfolding dr tw ..
  finally show ?thesis .
qed

lemma ParseDoubanURL_subjectURL:
  assumes "subjectURL u host ds"
  shows "ParseDoubanURL u c =
     (case validHosts c of
        None \<Rightarrow> Inl UnknownSubjectType
      | Some hosts \<Rightarrow> if host \<in> set hosts then Inr ds else Inl (InvalidHost c hosts))"
proof -
  from assms have "host = ''www.douban.com'' \<or> host = ''book.douban.com'' \<or> host = ''movie.douban.com''"
    unfolding subjectURL_def by blast
  then have tw: "takeWhile (\<lambda>c. c \<noteq> CHR '':'') host = host" by auto
  show ?thesis
    by (simp add: ParseDoubanURL_def MatchString_def Find_subjectURL[OF assms]
        url_Hostname_subjectURL[OF assms] tw split: option.splits)
qed

lemma ParseDoubanURL_not_subjectURL:
  assumes "\<not> (\<exists>host ds. subjectURL u host ds)"
  shows "ParseDoubanURL u c = Inl InvalidFormat"
  by (simp add: ParseDoubanURL_def MatchString_def Find_not_subjectURL[OF assms])

section \<open>Properties of the fetch, the rating scan and the download\<close>














text \<open>
  A response with status 200 that carries the rating page compressed: \<^verbatim>\<open>fetchRating\<close>
  scans the compressed bytes, finds no pattern in them and returns 0.
\<close>

lemma fetchRating_compressed_body:
  "outcome gzipNet 0 = DoReturned gzipResponse
   \<and> StatusCode gzipResponse = 200 \<and> ContentEncoding gzipResponse = ''gzip''
   \<and> fetchRating parseDecimal gzipNet = 0"
  by code_simp

lemma requestAPI_success:
  assumes "newRequestErr w = None" "n < api_maxRetries"
    and "\<forall>j<n. apiFailure (outcome w j) \<noteq> None"
    and "outcome w n = DoReturned resp" "apiFailure (outcome w n) = None"
  shows "requestAPI w = (Inr (Body resp), n + 1)"
proof -
  have ok: "StatusCode resp = 200" "BodyErr resp = None"
    using assms(4,5) by (auto simp: apiFailure_def split: if_splits option.splits)
  from assms(2) have "n = 0 \<or> n = 1" unfolding api_maxRetries_def by arith
  then show ?thesis
  proof
    assume 1: "n = 0"
    with assms(1,4) ok show ?thesis
      by (simp add: requestAPI_def requestAPI_loop.simps[of w 0] api_maxRetries_def)
  next
    assume 2: "n = 1"
    with assms(3) have "apiFailure (outcome w 0) \<noteq> None" by simp
    with 2 assms(1,4) ok show ?thesis
      by (auto simp: requestAPI_def requestAPI_loop.simps[of w 0] requestAPI_loop.simps[of w 1]
          api_maxRetries_def apiFailure_def split: attempt.splits option.splits if_splits)
  qed
qed

lemma requestAPI_exhausted:
  assumes "newRequestErr w = None"
    and "apiFailure (outcome w 0) = Some c0" "apiFailure (outcome w 1) = Some c1"
  shows "requestAPI w = (Inl (FetchExhausted (Some c1)), 2)"
  using assms
  by (auto simp: requestAPI_def requestAPI_loop.simps[of w 0] requestAPI_loop.simps[of w 1]
      requestAPI_loop.simps[of w 2] api_maxRetries_def apiFailure_def
      split: attempt.splits option.splits if_splits)

lemma imageExt_mapping:
  "imageExt ct =
     (if \<exists>p q. ct = p @ ''png'' @ q then ''.png''
      else if \<exists>p q. ct = p @ ''gif'' @ q then ''.gif''
      else if \<exists>p q. ct = p @ ''webp'' @ q then ''.webp''
      else ''.jpg'')"
  unfolding imageExt_def Contains_iff by simp

text \<open>
  What the download loop does retry: a failed transport and a status other than 200, up
  to three requests in all.
\<close>

lemma download_loop_retry:
  assumes "newRequestErr w = None" "1 \<le> attempt" "attempt < dl_maxRetries"
    and "downloadFailure (outcome w (attempt - 1)) \<noteq> None"
  shows "download_loop extOf w d stem dir fs attempt sent =
         download_loop extOf w d stem dir fs (attempt + 1) (sent + 1)"
  using assms
  by (subst download_loop.simps)
     (auto simp del: download_loop.simps
           simp: downloadFailure_def split: attempt.splits if_splits)

lemma download_loop_last:
  assumes "newRequestErr w = None" "attempt = dl_maxRetries"
    and "downloadFailure (outcome w (attempt - 1)) = Some e"
  shows "download_loop extOf w d stem dir fs attempt sent = (Inl e, fs, sent + 1)"
  using assms
  by (subst download_loop.simps)
     (auto simp del: download_loop.simps
           simp: downloadFailure_def split: attempt.splits if_splits)

lemma download_loop_ok:
  assumes "newRequestErr w = None" "attempt \<le> dl_maxRetries"
    and "outcome w (attempt - 1) = DoReturned resp" "StatusCode resp = 200"
    and "createErr d = None" "writeErr d = None" "BodyErr resp = None"
  shows "download_loop extOf w d stem dir fs attempt sent =
         (Inr (filepath_Join dir (stem @ extOf (ContentType resp))),
          fs(filepath_Join dir (stem @ extOf (ContentType resp)) \<mapsto> Body resp), sent + 1)"
  using assms
  by (subst download_loop.simps)
     (simp del: download_loop.simps add: Let_def io_Copy_def os_Create_def)

lemma downloadImage_exhausted:
  assumes "imageURL \<noteq> []" "newRequestErr w = None"
    and "\<forall>k < dl_maxRetries. downloadFailure (outcome w k) \<noteq> None"
  shows "downloadImage w d fs imageURL subjectID imageDir =
         (Inl (the (downloadFailure (outcome w (dl_maxRetries - 1)))), fs, dl_maxRetries)"
proof -
  let ?loop = "download_loop imageExt w d subjectID imageDir fs"
  from assms(3) have f: "downloadFailure (outcome w 0) \<noteq> None"
    "downloadFailure (outcome w 1) \<noteq> None" "downloadFailure (outcome w 2) \<noteq> None"
    by (simp_all add: dl_maxRetries_def)
  then obtain e where e: "downloadFailure (outcome w 2) = Some e" by blast
  have "?loop 1 0 = ?loop (1 + 1) (0 + 1)"
    by (rule download_loop_retry) (use assms(2) f in \<open>simp_all add: dl_maxRetries_def eval_nat_numeral\<close>)
  also have "\<dots> = ?loop (1 + 1 + 1) (0 + 1 + 1)"
    by (rule download_loop_retry) (use assms(2) f in \<open>simp_all add: dl_maxRetries_def eval_nat_numeral\<close>)
  also have "\<dots> = (Inl e, fs, 0 + 1 + 1 + 1)"
    by (rule download_loop_last) (use assms(2) e in \<open>simp_all add: dl_maxRetries_def eval_nat_numeral\<close>)
  finally have "?loop 1 0 = (Inl e, fs, 0 + 1 + 1 + 1)" .
  moreover have "dl_maxRetries - 1 = 2" "0 + 1 + 1 + 1 = dl_maxRetries"
    by (simp_all add: dl_maxRetries_def)
  ultimately show ?thesis using assms(1) e
    by (simp del: download_loop.simps add: downloadImage_def)
qed

lemma downloadImage_success:
  assumes "imageURL \<noteq> []" "newRequestErr w = None" "n < dl_maxRetries"
    and "\<forall>k < n. downloadFailure (outcome w k) \<noteq> None"
    and "outcome w n = DoReturned resp" "StatusCode resp = 200"
    and "createErr d = None" "writeErr d = None" "BodyErr resp = None"
  shows "downloadImage w d fs imageURL subjectID imageDir =
         (Inr (filepath_Join imageDir (subjectID @ imageExt (ContentType resp))),
          fs(filepath_Join imageDir (subjectID @ imageExt (ContentType resp)) \<mapsto> Body resp),
          n + 1)"
proof -
  let ?path = "filepath_Join imageDir (subjectID @ imageExt (ContentType resp))"
  let ?loop = "download_loop imageExt w d subjectID imageDir fs"
  from assms(3) have "n = 0 \<or> n = 1 \<or> n = 2" unfolding dl_maxRetries_def by arith
  then have "?loop 1 0 = (Inr ?path, fs(?path \<mapsto> Body resp), n + 1)"
  proof (elim disjE)
    assume n: "n = 0"
    have "?loop 1 0 = (Inr ?path, fs(?path \<mapsto> Body resp), 0 + 1)"
      by (rule download_loop_ok)
         (use assms(2,5,6,7,8,9) n in \<open>simp_all add: dl_maxRetries_def eval_nat_numeral\<close>)
    with n show ?thesis by (simp del: download_loop.simps)
  next
    assume n: "n = 1"
    with assms(4) have f: "downloadFailure (outcome w 0) \<noteq> None" by simp
    have "?loop 1 0 = ?loop (1 + 1) (0 + 1)"
      by (rule download_loop_retry) (use assms(2) f in \<open>simp_all add: dl_maxRetries_def eval_nat_numeral\<close>)
    also have "\<dots> = (Inr ?path, fs(?path \<mapsto> Body resp), 0 + 1 + 1)"
      by (rule download_loop_ok)
         (use assms(2,5,6,7,8,9) n in \<open>simp_all add: dl_maxRetries_def eval_nat_numeral\<close>)
    finally show ?thesis using n by (simp del: download_loop.simps)
  next
    assume n: "n = 2"
    with assms(4) have f: "downloadFailure (outcome w 0) \<noteq> None"
      "downloadFailure (outcome w 1) \<noteq> None" by simp_all
    have "?loop 1 0 = ?loop (1 + 1) (0 + 1)"
      by (rule download_loop_retry) (use assms(2) f in \<open>simp_all add: dl_maxRetries_def eval_nat_numeral\<close>)
    also have "\<dots> = ?loop (1 + 1 + 1) (0 + 1 + 1)"
      by (rule download_loop_retry) (use assms(2) f in \<open>simp_all add: dl_maxRetries_def eval_nat_numeral\<close>)
    also have "\<dots> = (Inr ?path, fs(?path \<mapsto> Body resp), 0 + 1 + 1 + 1)"
      by (rule download_loop_ok)
         (use assms(2,5,6,7,8,9) n in \<open>simp_all add: dl_maxRetries_def eval_nat_numeral\<close>)
    finally show ?thesis using n by (simp del: download_loop.simps)
  qed
  with assms(1) show ?thesis by (simp del: download_loop.simps add: downloadImage_def)
qed

section \<open>Properties of the marker search and of the handler\<close>

lemma Index_eq_first:
  assumes "s = p @ sub @ q"
    and "\<forall>p' q'. s = p' @ sub @ q' \<longrightarrow> length p \<le> length p'"
  shows "Index s sub = int (length p)"
proof -
  from Index_least[OF assms(1)] have i: "0 \<le> Index s sub" "nat (Index s sub) \<le> length p"
    by simp_all
  have "length (take (nat (Index s sub)) s) = nat (Index s sub)"
    using Index_le[of s sub] i(1) by simp
  with assms(2) Index_split[OF i(1)] have "length p \<le> nat (Index s sub)" by metis
  with i show ?thesis by simp
qed

lemma Index_absent:
  assumes "\<not> (\<exists>p q. s = p @ sub @ q)"
  shows "Index s sub = - 1"
proof -
  from assms have "\<not> 0 \<le> Index s sub" using Contains_iff[of s sub] by (simp add: Contains_def)
  with Index_ge[of s sub] show ?thesis by simp
qed

lemma Index_present:
  assumes "s = p @ sub @ q"
  shows "Index s sub \<noteq> - 1"
  using Index_least[OF assms] by simp

lemma getString_cases:
  "getString m key = (case m key of Some (JString s) \<Rightarrow> s | _ \<Rightarrow> [])"
  by (simp add: getString_def split: option.splits json.splits)

lemma createNew_result:
  "\<exists>m. snd (snd (createNew w fs url sid wa info)) =
          (if Rating info = 0 then [FetchRating url] else []) @
          (if ImageURL info \<noteq> [] then [DownloadImage (ImageURL info) sid] else []) @
          [DbCreate m]
       \<and> m_ImageURL m =
          (if ImageURL info = [] then []
           else (case fst (downloadImage (imageNet w) (imageDisk w) fs (ImageURL info) sid
                             (globalImageDir w)) of
                   Inl err \<Rightarrow> ImageURL info
                 | Inr localPath \<Rightarrow> ''/images/'' @ filepath_Base localPath))
       \<and> m_Rating m =
          (if Rating info = 0 then fetchRating (floatParser w) (ratingNet w) else Rating info)
       \<and> fst (createNew w fs url sid wa info) =
          (case dbCreateErr w of None \<Rightarrow> MovieAdded | Some err \<Rightarrow> RedirectError (SaveFailed err))"
  by (auto simp: createNew_def Let_def split: prod.splits sum.splits option.splits)

lemma addMovieHandler_new:
  assumes "method = ''POST''" "doubanURL \<noteq> []"
    and "ParseDoubanURL doubanURL (detectSubjectType doubanURL) = Inr sid"
    and "mediaInfo w (detectSubjectType doubanURL) sid = Inr info"
    and "lookup w sid = RecordNotFound"
  shows "addMovieHandler w fs method doubanURL watchedAtStr =
           (fst (createNew w fs doubanURL sid (parseWatchedAt w watchedAtStr) info),
            fst (snd (createNew w fs doubanURL sid (parseWatchedAt w watchedAtStr) info)),
            FetchInfo (detectSubjectType doubanURL) sid # DbFirst sid #
              snd (snd (createNew w fs doubanURL sid (parseWatchedAt w watchedAtStr) info)))"
  using assms
  by (simp add: addMovieHandler_def Let_def split: prod.splits)

lemma calls_in_order:
  assumes "ev = as @ bs"
    and "\<forall>e \<in> set as. \<not> isDownloadImage e"
    and "\<forall>e \<in> set bs. \<not> isFetchRating e"
  shows "\<forall>i j. i < length ev \<and> j < length ev \<and> isFetchRating (ev ! i) \<and> isDownloadImage (ev ! j)
           \<longrightarrow> i < j"
proof (intro allI impI)
  fix i j
  assume h: "i < length ev \<and> j < length ev \<and> isFetchRating (ev ! i) \<and> isDownloadImage (ev ! j)"
  have i: "i < length as"
  proof (rule ccontr)
    assume "\<not> i < length as"
    with h assms(1) have "ev ! i = bs ! (i - length as)" "i - length as < length bs"
      by (auto simp: nth_append)
    then have "ev ! i \<in> set bs" by simp
    with assms(3) h show False by blast
  qed
  have j: "\<not> j < length as"
  proof
    assume "j < length as"
    with assms(1) have "ev ! j \<in> set as" by (simp add: nth_append)
    with assms(2) h show False by blast
  qed
  from i j show "i < j" by simp
qed

section \<open>The claims\<close>

subsection \<open>C1: the URL resolver\<close>

text \<open>
  C1, as the code has it. \<^verbatim>\<open>ParseDoubanURL\<close> returns the identifier \<open>ident\<close> exactly
  when the URL consists of the scheme \<open>https\<close>, a host of the allow-list of the requested category
  (\<open>book\<close>: \<open>book.douban.com\<close>; \<open>movie\<close>, \<open>tv\<close>, \<open>anime\<close>: \<open>movie.douban.com\<close>;
  \<open>game\<close>: \<open>www.douban.com\<close>), and a path \<open>/subject/\<close> or \<open>/game/\<close> followed by the
  digit run \<open>ident\<close> and an optional slash; either path form is accepted for every
  category. A URL of that shape whose host is not in the allow-list of a known category
  fails with the host error, a URL of that shape with an unknown category fails with the
  unknown-type error, and a URL that is not of that shape fails with the format error,
  whatever the category.
\<close>

theorem ParseDoubanURL_resolves:
  "(ParseDoubanURL u c = Inr ident \<longleftrightarrow>
      (\<exists>host hosts. subjectURL u host ident \<and> validHosts c = Some hosts \<and> host \<in> set hosts))
   \<and> (subjectURL u host ds \<and> validHosts c = Some hosts \<and> host \<notin> set hosts
        \<longrightarrow> ParseDoubanURL u c = Inl (InvalidHost c hosts))
   \<and> (subjectURL u host ds \<and> validHosts c = None
        \<longrightarrow> ParseDoubanURL u c = Inl UnknownSubjectType)
   \<and> (\<not> (\<exists>host ds. subjectURL u host ds) \<longrightarrow> ParseDoubanURL u c = Inl InvalidFormat)
   \<and> validHosts ''book'' = Some [''book.douban.com'']
   \<and> validHosts ''movie'' = Some [''movie.douban.com'']
   \<and> validHosts ''tv'' = Some [''movie.douban.com'']
   \<and> validHosts ''anime'' = Some [''movie.douban.com'']
   \<and> validHosts ''game'' = Some [''www.douban.com'']
   \<and> (c \<notin> {''book'', ''movie'', ''tv'', ''anime'', ''game''} \<longrightarrow> validHosts c = None)"
proof -
  have iff: "ParseDoubanURL u c = Inr ident \<longleftrightarrow>
      (\<exists>host hosts. subjectURL u host ident \<and> validHosts c = Some hosts \<and> host \<in> set hosts)"
  proof
    assume ok: "ParseDoubanURL u c = Inr ident"
    then have "\<exists>host ds. subjectURL u host ds"
      using ParseDoubanURL_not_subjectURL[of u c] by auto
    then obtain host ds where sh: "subjectURL u host ds" by blast
    from ok show "\<exists>host hosts. subjectURL u host ident \<and> validHosts c = Some hosts \<and> host \<in> set hosts"
      unfolding ParseDoubanURL_subjectURL[OF sh] using sh
      by (auto split: option.splits if_splits)
  next
    assume "\<exists>host hosts. subjectURL u host ident \<and> validHosts c = Some hosts \<and> host \<in> set hosts"
    then obtain host hosts where sh: "subjectURL u host ident"
      and "validHosts c = Some hosts" "host \<in> set hosts" by blast
    then show "ParseDoubanURL u c = Inr ident"
      by (simp add: ParseDoubanURL_subjectURL[OF sh])
  qed
  have mismatch: "subjectURL u host ds \<and> validHosts c = Some hosts \<and> host \<notin> set hosts
        \<longrightarrow> ParseDoubanURL u c = Inl (InvalidHost c hosts)"
    by (auto simp: ParseDoubanURL_subjectURL)
  have unknown: "subjectURL u host ds \<and> validHosts c = None
        \<longrightarrow> ParseDoubanURL u c = Inl UnknownSubjectType"
    by (auto simp: ParseDoubanURL_subjectURL)
  have invalid: "\<not> (\<exists>host ds. subjectURL u host ds) \<longrightarrow> ParseDoubanURL u c = Inl InvalidFormat"
    using ParseDoubanURL_not_subjectURL by blast
  have tab: "validHosts ''book'' = Some [''book.douban.com'']"
    "validHosts ''movie'' = Some [''movie.douban.com'']"
    "validHosts ''tv'' = Some [''movie.douban.com'']"
    "validHosts ''anime'' = Some [''movie.douban.com'']"
    "validHosts ''game'' = Some [''www.douban.com'']"
    by (simp_all add: validHosts_def)
  have other: "c \<notin> {''book'', ''movie'', ''tv'', ''anime'', ''game''} \<longrightarrow> validHosts c = None"
    by (simp add: validHosts_def)
  from iff mismatch unknown invalid tab other show ?thesis by blast
qed

text \<open>
  C1, witness: the movie URL of the specification resolves for \<open>movie\<close>, is rejected
  with the host error for \<open>book\<close>, and with the unknown-type error for \<open>music\<close>.
\<close>

theorem ParseDoubanURL_resolves_witness:
  "subjectURL ''https://movie.douban.com/subject/1292052/'' ''movie.douban.com'' ''1292052''
   \<and> ParseDoubanURL ''https://movie.douban.com/subject/1292052/'' ''movie'' = Inr ''1292052''
   \<and> ParseDoubanURL ''https://movie.douban.com/subject/1292052/'' ''book''
       = Inl (InvalidHost ''book'' [''book.douban.com''])
   \<and> ParseDoubanURL ''https://movie.douban.com/subject/1292052/'' ''music'' = Inl UnknownSubjectType"
proof -
  let ?u = "''https://movie.douban.com/subject/1292052/''"
  have sh: "subjectURL ?u ''movie.douban.com'' ''1292052''"
    unfolding subjectURL_def
    by (rule exI[of _ "''subject''"], rule exI[of _ "''/''"]) (simp add: isDigit_def)
  have vm: "validHosts ''movie'' = Some [''movie.douban.com'']"
    and vb: "validHosts ''book'' = Some [''book.douban.com'']"
    and vx: "validHosts ''music'' = None"
    by (simp_all add: validHosts_def)
  have a: "ParseDoubanURL ?u ''movie'' = Inr ''1292052''"
    using ParseDoubanURL_resolves[of ?u "''movie''" "''1292052''"] sh vm by auto
  have b: "ParseDoubanURL ?u ''book'' = Inl (InvalidHost ''book'' [''book.douban.com''])"
    using ParseDoubanURL_resolves[of ?u "''book''" _ "''movie.douban.com''" "''1292052''" "[''book.douban.com'']"] sh vb
    by simp
  have c: "ParseDoubanURL ?u ''music'' = Inl UnknownSubjectType"
    using ParseDoubanURL_resolves[of ?u "''music''" _ "''movie.douban.com''" "''1292052''"] sh vx
    by simp
  from sh a b c show ?thesis by blast
qed

text \<open>
  C1, counterexample to the claim as stated: the \<open>/game/\<close> path form is not specific to
  the category \<open>game\<close>. A URL with the book host and the path \<open>/game/123\<close> resolves
  for the category \<open>book\<close>. And scheme, host and path are all a URL may have: the movie
  URL of the specification followed by a query is rejected.
\<close>

theorem ParseDoubanURL_game_path_counterexample:
  "ParseDoubanURL (''https://'' @ ''book.douban.com'' @ ''/game/123'') ''book'' = Inr ''123''
   \<and> ''book'' \<noteq> ''game''
   \<and> ParseDoubanURL (''https://'' @ ''movie.douban.com'' @ ''/subject/1292052/'' @ ''?from=x'')
         ''movie'' = Inl InvalidFormat"
  by code_simp

subsection \<open>C2: the titles of a game\<close>

text \<open>
  C2. \<^verbatim>\<open>strings.Contains\<close> holds exactly when the localized title occurs in the primary
  title. When it does, the canonical title is the localized title, and the alternate
  title is the primary title with the first occurrence of the localized title cut out
  and the surrounding white space trimmed: what is left after the cut is the alternate
  title between two runs of white space (each a sequence of UTF-8 encodings of white
  space runes, possibly empty), and the alternate title itself neither starts nor ends
  with white space. Otherwise the canonical title is the primary title and the alternate
  title is the localized one. For the example of the specification the titles are the
  localized title and the primary title without it.
\<close>

theorem game_title_projection:
  "(Contains (g_Title g) (g_TitleCN g) \<longleftrightarrow> (\<exists>p q. g_Title g = p @ g_TitleCN g @ q))
   \<and> (Contains (g_Title g) (g_TitleCN g) \<longrightarrow>
        Title (projectGame g) = g_TitleCN g \<and>
        (\<exists>p q ls rs. g_Title g = p @ g_TitleCN g @ q \<and>
               (\<forall>p' q'. g_Title g = p' @ g_TitleCN g @ q' \<longrightarrow> length p \<le> length p') \<and>
               set ls \<subseteq> set spaceEncodings \<and> set rs \<subseteq> set spaceEncodings \<and>
               p @ q = concat ls @ AltTitle (projectGame g) @ concat rs) \<and>
        (\<forall>e \<in> set spaceEncodings. \<forall>t.
               AltTitle (projectGame g) \<noteq> e @ t \<and> AltTitle (projectGame g) \<noteq> t @ e))
   \<and> (\<not> Contains (g_Title g) (g_TitleCN g) \<longrightarrow>
        Title (projectGame g) = g_Title g \<and> AltTitle (projectGame g) = g_TitleCN g)
   \<and> (g_Title g = exampleTitle \<and> g_TitleCN g = exampleTitleCN \<longrightarrow>
        Title (projectGame g) = exampleTitleCN \<and> AltTitle (projectGame g) = exampleAltTitle)"
proof -
  have a: "Contains (g_Title g) (g_TitleCN g) \<longleftrightarrow> (\<exists>p q. g_Title g = p @ g_TitleCN g @ q)"
    by (rule Contains_iff)
  have b: "Contains (g_Title g) (g_TitleCN g) \<longrightarrow>
        Title (projectGame g) = g_TitleCN g \<and>
        (\<exists>p q ls rs. g_Title g = p @ g_TitleCN g @ q \<and>
               (\<forall>p' q'. g_Title g = p' @ g_TitleCN g @ q' \<longrightarrow> length p \<le> length p') \<and>
               set ls \<subseteq> set spaceEncodings \<and> set rs \<subseteq> set spaceEncodings \<and>
               p @ q = concat ls @ AltTitle (projectGame g) @ concat rs) \<and>
        (\<forall>e \<in> set spaceEncodings. \<forall>t.
               AltTitle (projectGame g) \<noteq> e @ t \<and> AltTitle (projectGame g) \<noteq> t @ e)"
  proof
    assume c: "Contains (g_Title g) (g_TitleCN g)"
    from Replace1_first[OF c] obtain p q where pq: "g_Title g = p @ g_TitleCN g @ q"
      "\<forall>p' q'. g_Title g = p' @ g_TitleCN g @ q' \<longrightarrow> length p \<le> length p'"
      "Replace1 (g_Title g) (g_TitleCN g) [] = p @ q" by blast
    have alt: "AltTitle (projectGame g) = TrimSpace (p @ q)"
      using c pq(3) by (simp add: projectGame_def gameAltTitle_def)
    from TrimSpace_removes[of "p @ q"] obtain ls rs where
      lr: "set ls \<subseteq> set spaceEncodings" "set rs \<subseteq> set spaceEncodings"
          "p @ q = concat ls @ TrimSpace (p @ q) @ concat rs" by blast
    have t1: "Title (projectGame g) = g_TitleCN g"
      using c by (simp add: projectGame_def gameTitle_def)
    have t2: "\<exists>p q ls rs. g_Title g = p @ g_TitleCN g @ q \<and>
               (\<forall>p' q'. g_Title g = p' @ g_TitleCN g @ q' \<longrightarrow> length p \<le> length p') \<and>
               set ls \<subseteq> set spaceEncodings \<and> set rs \<subseteq> set spaceEncodings \<and>
               p @ q = concat ls @ AltTitle (projectGame g) @ concat rs"
      using pq(1,2) lr unfolding alt by blast
    have t3: "\<forall>e \<in> set spaceEncodings. \<forall>t.
               AltTitle (projectGame g) \<noteq> e @ t \<and> AltTitle (projectGame g) \<noteq> t @ e"
      unfolding alt by (rule TrimSpace_ends)
    from t1 t2 t3
    show "Title (projectGame g) = g_TitleCN g \<and>
        (\<exists>p q ls rs. g_Title g = p @ g_TitleCN g @ q \<and>
               (\<forall>p' q'. g_Title g = p' @ g_TitleCN g @ q' \<longrightarrow> length p \<le> length p') \<and>
               set ls \<subseteq> set spaceEncodings \<and> set rs \<subseteq> set spaceEncodings \<and>
               p @ q = concat ls @ AltTitle (projectGame g) @ concat rs) \<and>
        (\<forall>e \<in> set spaceEncodings. \<forall>t.
               AltTitle (projectGame g) \<noteq> e @ t \<and> AltTitle (projectGame g) \<noteq> t @ e)"
      by (intro conjI)
  qed
  have c: "\<not> Contains (g_Title g) (g_TitleCN g) \<longrightarrow>
        Title (projectGame g) = g_Title g \<and> AltTitle (projectGame g) = g_TitleCN g"
    by (simp add: projectGame_def gameTitle_def gameAltTitle_def)
  have e1: "Contains exampleTitle exampleTitleCN" by code_simp
  have e2: "TrimSpace (Replace1 exampleTitle exampleTitleCN []) = exampleAltTitle" by code_simp
  have d: "g_Title g = exampleTitle \<and> g_TitleCN g = exampleTitleCN \<longrightarrow>
        Title (projectGame g) = exampleTitleCN \<and> AltTitle (projectGame g) = exampleAltTitle"
    using e1 e2 by (simp add: projectGame_def gameTitle_def gameAltTitle_def)
  from a b c d show ?thesis by (intro conjI)
qed

text \<open>
  C2, witness: a primary title that contains the localized title at its start, so that
  the white space to trim is on the left of what remains; one that contains it in the
  middle, between white space on both sides, with an ideographic space at the end; one
  that does not contain it; and the example of the specification.
\<close>

theorem game_title_projection_witness:
  "Contains ''Chuansongmen Portal 2'' ''Chuansongmen''
   \<and> Title (projectGame (sampleGame\<lparr> g_Title := ''Chuansongmen Portal 2'', g_TitleCN := ''Chuansongmen'' \<rparr>)) = ''Chuansongmen''
   \<and> AltTitle (projectGame (sampleGame\<lparr> g_Title := ''Chuansongmen Portal 2'', g_TitleCN := ''Chuansongmen'' \<rparr>)) = ''Portal 2''
   \<and> AltTitle (projectGame (sampleGame\<lparr> g_Title := paddedTitle, g_TitleCN := ''Chuansongmen'' \<rparr>)) = ''Portal  2''
   \<and> \<not> Contains ''Portal 2'' ''Chuansongmen''
   \<and> AltTitle (projectGame (sampleGame\<lparr> g_Title := ''Portal 2'', g_TitleCN := ''Chuansongmen'' \<rparr>)) = ''Chuansongmen''
   \<and> AltTitle (projectGame (sampleGame\<lparr> g_Title := exampleTitle, g_TitleCN := exampleTitleCN \<rparr>)) = exampleAltTitle"
proof -
  let ?g = "sampleGame\<lparr> g_Title := ''Chuansongmen Portal 2'', g_TitleCN := ''Chuansongmen'' \<rparr>"
  let ?h = "sampleGame\<lparr> g_Title := paddedTitle, g_TitleCN := ''Chuansongmen'' \<rparr>"
  have c1: "Contains ''Chuansongmen Portal 2'' ''Chuansongmen''" by code_simp
  have c2: "\<not> Contains ''Portal 2'' ''Chuansongmen''" by code_simp
  have a: "Title (projectGame ?g) = ''Chuansongmen''"
    using game_title_projection[of ?g] c1 by simp
  have l: "AltTitle (projectGame ?g) = ''Portal 2''" by code_simp
  have m: "AltTitle (projectGame ?h) = ''Portal  2''" by code_simp
  have b: "AltTitle (projectGame (sampleGame\<lparr> g_Title := ''Portal 2'', g_TitleCN := ''Chuansongmen'' \<rparr>)) = ''Chuansongmen''"
    using game_title_projection[of "sampleGame\<lparr> g_Title := ''Portal 2'', g_TitleCN := ''Chuansongmen'' \<rparr>"] c2
    by simp
  have c: "AltTitle (projectGame (sampleGame\<lparr> g_Title := exampleTitle, g_TitleCN := exampleTitleCN \<rparr>)) = exampleAltTitle"
    using game_title_projection[of "sampleGame\<lparr> g_Title := exampleTitle, g_TitleCN := exampleTitleCN \<rparr>"]
    by simp
  from c1 a l m c2 b c show ?thesis by (intro conjI)
qed

subsection \<open>C3: the retry budget\<close>

text \<open>
  C3 at an input where the code departs from it. The first attempt of a download gets
  status 200 and a body whose stream breaks; the second attempt would succeed.
  \<^verbatim>\<open>downloadImage\<close> returns the save error after one request, without a retry, while
  \<^verbatim>\<open>requestAPI\<close> on the same network retries and returns the body of the second
  attempt. (\<open>requestAPI_success\<close> and \<open>requestAPI_exhausted\<close> above show that
  \<^verbatim>\<open>requestAPI\<close> does what the claim says, \<open>downloadImage_success\<close> and
  \<open>downloadImage_exhausted\<close> that \<^verbatim>\<open>downloadImage\<close> does so for transport errors and
  statuses other than 200.)
\<close>

theorem downloadImage_read_failure_not_retried:
  "fst (downloadImage brokenThenOkNet okDisk Map.empty ''https://img1.doubanio.com/p1.jpg''
          ''1292052'' ''images'') = Inl (SaveImageFailed ''unexpected EOF'')
   \<and> snd (snd (downloadImage brokenThenOkNet okDisk Map.empty ''https://img1.doubanio.com/p1.jpg''
          ''1292052'' ''images'')) = 1
   \<and> outcome brokenThenOkNet 1 = DoReturned okResponse
   \<and> apiFailure (DoReturned okResponse) = None
   \<and> requestAPI brokenThenOkNet = (Inr ''JFIF-bytes'', 2)"
  by code_simp

subsection \<open>C4: the order of the calls when an item is added\<close>

text \<open>
  C4. In a run of the handler that reaches the creation of a new record, the calls are:
  the metadata mapper first and once; the rating backfill exactly once when the mapped
  rating is 0 and never when it is not; and every call of the rating backfill comes
  before every call of the download, which happens once when the record has a cover and
  never when it has none. Each call returns before the handler goes on.
\<close>

theorem addMovieHandler_backfill_order:
  assumes "method = ''POST''" "doubanURL \<noteq> []"
    and "ParseDoubanURL doubanURL (detectSubjectType doubanURL) = Inr sid"
    and "mediaInfo w (detectSubjectType doubanURL) sid = Inr info"
    and "lookup w sid = RecordNotFound"
    and "addMovieHandler w fs method doubanURL watchedAtStr = (r, fs', ev)"
  shows "(Rating info = 0 \<longrightarrow> filter isFetchRating ev = [FetchRating doubanURL])
       \<and> (Rating info \<noteq> 0 \<longrightarrow> filter isFetchRating ev = [])
       \<and> (\<forall>i j. i < length ev \<and> j < length ev \<and> isFetchRating (ev ! i) \<and> isDownloadImage (ev ! j)
             \<longrightarrow> i < j)
       \<and> (\<exists>rest. ev = FetchInfo (detectSubjectType doubanURL) sid # rest \<and>
             filter isFetchInfo rest = [])
       \<and> (ImageURL info \<noteq> [] \<longrightarrow>
             filter isDownloadImage ev = [DownloadImage (ImageURL info) sid])
       \<and> (ImageURL info = [] \<longrightarrow> filter isDownloadImage ev = [])"
proof -
  let ?c = "createNew w fs doubanURL sid (parseWatchedAt w watchedAtStr) info"
  let ?R = "if Rating info = 0 then [FetchRating doubanURL] else []"
  let ?D = "if ImageURL info \<noteq> [] then [DownloadImage (ImageURL info) sid] else []"
  from createNew_result[of w fs doubanURL sid "parseWatchedAt w watchedAtStr" info]
  obtain m where evc: "snd (snd ?c) = ?R @ ?D @ [DbCreate m]" by blast
  from addMovieHandler_new[OF assms(1-5), of fs watchedAtStr] assms(6)
  have "ev = FetchInfo (detectSubjectType doubanURL) sid # DbFirst sid # snd (snd ?c)"
    by simp
  then have ev: "ev = FetchInfo (detectSubjectType doubanURL) sid # DbFirst sid # ?R @ ?D @ [DbCreate m]"
    unfolding evc .
  have a: "Rating info = 0 \<longrightarrow> filter isFetchRating ev = [FetchRating doubanURL]"
    unfolding ev by simp
  have b: "Rating info \<noteq> 0 \<longrightarrow> filter isFetchRating ev = []"
    unfolding ev by simp
  have split: "ev = (FetchInfo (detectSubjectType doubanURL) sid # DbFirst sid # ?R) @ (?D @ [DbCreate m])"
    unfolding ev by simp
  have c: "\<forall>i j. i < length ev \<and> j < length ev \<and> isFetchRating (ev ! i) \<and> isDownloadImage (ev ! j)
             \<longrightarrow> i < j"
    by (rule calls_in_order[OF split]) simp_all
  have d: "\<exists>rest. ev = FetchInfo (detectSubjectType doubanURL) sid # rest \<and>
             filter isFetchInfo rest = []"
    unfolding ev by simp
  have e: "ImageURL info \<noteq> [] \<longrightarrow>
             filter isDownloadImage ev = [DownloadImage (ImageURL info) sid]"
    unfolding ev by simp
  have f: "ImageURL info = [] \<longrightarrow> filter isDownloadImage ev = []"
    unfolding ev by simp
  from a b c d e f show ?thesis by blast
qed

text \<open>
  C4, witness: a movie whose API answer has no rating and a cover, and the same movie
  with the rating 9.4.
\<close>

theorem addMovieHandler_backfill_order_witness:
  "filter isFetchRating (snd (snd (addMovieHandler sampleWorld Map.empty ''POST'' sampleURL [])))
     = [FetchRating sampleURL]
   \<and> filter isDownloadImage (snd (snd (addMovieHandler sampleWorld Map.empty ''POST'' sampleURL [])))
     = [DownloadImage ''https://img1.doubanio.com/p1.jpg'' ''1292052'']
   \<and> filter isFetchRating (snd (snd (addMovieHandler ratedWorld Map.empty ''POST'' sampleURL [])))
     = []"
proof -
  let ?h = "addMovieHandler sampleWorld Map.empty ''POST'' sampleURL []"
  let ?k = "addMovieHandler ratedWorld Map.empty ''POST'' sampleURL []"
  have u: "sampleURL \<noteq> []" by (simp add: sampleURL_def)
  have p: "ParseDoubanURL sampleURL (detectSubjectType sampleURL) = Inr ''1292052''"
    by code_simp
  have m: "mediaInfo sampleWorld (detectSubjectType sampleURL) ''1292052'' = Inr sampleInfo"
    by (simp add: sampleWorld_def)
  have l: "lookup sampleWorld ''1292052'' = RecordNotFound" by (simp add: sampleWorld_def)
  have e: "?h = (fst ?h, fst (snd ?h), snd (snd ?h))" by simp
  have r0: "Rating sampleInfo = 0" and i0: "ImageURL sampleInfo = ''https://img1.doubanio.com/p1.jpg''"
    by (simp_all add: sampleInfo_def)
  from addMovieHandler_backfill_order[OF refl u p m l e] r0 i0
  have a: "filter isFetchRating (snd (snd ?h)) = [FetchRating sampleURL]"
    and b: "filter isDownloadImage (snd (snd ?h))
              = [DownloadImage ''https://img1.doubanio.com/p1.jpg'' ''1292052'']"
    by simp_all
  have m': "mediaInfo ratedWorld (detectSubjectType sampleURL) ''1292052''
              = Inr (sampleInfo\<lparr> Rating := 94 / 10 \<rparr>)"
    by (simp add: ratedWorld_def)
  have l': "lookup ratedWorld ''1292052'' = RecordNotFound"
    by (simp add: ratedWorld_def sampleWorld_def)
  have e': "?k = (fst ?k, fst (snd ?k), snd (snd ?k))" by simp
  have r1: "Rating (sampleInfo\<lparr> Rating := 94 / 10 \<rparr>) \<noteq> 0" by simp
  from addMovieHandler_backfill_order[OF refl u p m' l' e'] r1
  have c: "filter isFetchRating (snd (snd ?k)) = []" by blast
  from a b c show ?thesis by blast
qed

subsection \<open>C5: the rating backfill\<close>




subsection \<open>C6: a failed download leaves no file\<close>




subsection \<open>C7: a failed download does not fail the addition\<close>

text \<open>
  C7. In a run that reaches the creation of a new record for which the cover URL is not
  empty and \<^verbatim>\<open>downloadImage\<close> fails, the record handed to the database has the remote
  URL of the canonical record as its image reference, unchanged, and the reply is the
  success message whenever \<^verbatim>\<open>db.Create\<close> succeeds; only a failure of
  \<^verbatim>\<open>db.Create\<close> itself turns the reply into an error.
\<close>

theorem addMovieHandler_keeps_remote_image:
  assumes "method = ''POST''" "doubanURL \<noteq> []"
    and "ParseDoubanURL doubanURL (detectSubjectType doubanURL) = Inr sid"
    and "mediaInfo w (detectSubjectType doubanURL) sid = Inr info"
    and "lookup w sid = RecordNotFound"
    and "ImageURL info \<noteq> []"
    and "fst (downloadImage (imageNet w) (imageDisk w) fs (ImageURL info) sid (globalImageDir w))
           = Inl err"
    and "addMovieHandler w fs method doubanURL watchedAtStr = (r, fs', ev)"
  shows "(\<exists>m. createdMovie ev = Some m \<and> m_ImageURL m = ImageURL info)
       \<and> (dbCreateErr w = None \<longrightarrow> r = MovieAdded)
       \<and> (\<forall>e. dbCreateErr w = Some e \<longrightarrow> r = RedirectError (SaveFailed e))"
proof -
  let ?c = "createNew w fs doubanURL sid (parseWatchedAt w watchedAtStr) info"
  from createNew_result[of w fs doubanURL sid "parseWatchedAt w watchedAtStr" info]
  obtain m where evc: "snd (snd ?c) =
          (if Rating info = 0 then [FetchRating doubanURL] else []) @
          (if ImageURL info \<noteq> [] then [DownloadImage (ImageURL info) sid] else []) @
          [DbCreate m]"
    and img: "m_ImageURL m =
          (if ImageURL info = [] then []
           else (case fst (downloadImage (imageNet w) (imageDisk w) fs (ImageURL info) sid
                             (globalImageDir w)) of
                   Inl err \<Rightarrow> ImageURL info
                 | Inr localPath \<Rightarrow> ''/images/'' @ filepath_Base localPath))"
    and rep: "fst ?c =
          (case dbCreateErr w of None \<Rightarrow> MovieAdded | Some err \<Rightarrow> RedirectError (SaveFailed err))"
    by blast
  from addMovieHandler_new[OF assms(1-5), of fs watchedAtStr] assms(8)
  have ev: "ev = FetchInfo (detectSubjectType doubanURL) sid # DbFirst sid # snd (snd ?c)"
    and r: "r = fst ?c"
    by simp_all
  have "createdMovie ev = Some m" unfolding ev evc by simp
  moreover have "m_ImageURL m = ImageURL info" using img assms(6,7) by simp
  ultimately show ?thesis using r rep by (auto split: option.splits)
qed

text \<open>
  C7, witness: every image request times out; the record keeps the remote URL and the
  movie is added.
\<close>

theorem addMovieHandler_keeps_remote_image_witness:
  "fst (downloadImage timeoutNet okDisk Map.empty ''https://img1.doubanio.com/p1.jpg'' ''1292052''
          ''images'') = Inl (FailedAfterAttempts 3 ''timeout'')
   \<and> map_option m_ImageURL
        (createdMovie (snd (snd (addMovieHandler offlineWorld Map.empty ''POST'' sampleURL []))))
       = Some ''https://img1.doubanio.com/p1.jpg''
   \<and> fst (addMovieHandler offlineWorld Map.empty ''POST'' sampleURL []) = MovieAdded"
proof -
  let ?h = "addMovieHandler offlineWorld Map.empty ''POST'' sampleURL []"
  have u: "sampleURL \<noteq> []" by (simp add: sampleURL_def)
  have p: "ParseDoubanURL sampleURL (detectSubjectType sampleURL) = Inr ''1292052''"
    by code_simp
  have m: "mediaInfo offlineWorld (detectSubjectType sampleURL) ''1292052'' = Inr sampleInfo"
    by (simp add: offlineWorld_def sampleWorld_def)
  have l: "lookup offlineWorld ''1292052'' = RecordNotFound"
    by (simp add: offlineWorld_def sampleWorld_def)
  have i: "ImageURL sampleInfo \<noteq> []" and i0: "ImageURL sampleInfo = ''https://img1.doubanio.com/p1.jpg''"
    by (simp_all add: sampleInfo_def)
  have d0: "fst (downloadImage timeoutNet okDisk Map.empty ''https://img1.doubanio.com/p1.jpg''
          ''1292052'' ''images'') = Inl (FailedAfterAttempts 3 ''timeout'')"
    by code_simp
  then have d: "fst (downloadImage (imageNet offlineWorld) (imageDisk offlineWorld) Map.empty
          (ImageURL sampleInfo) ''1292052'' (globalImageDir offlineWorld))
        = Inl (FailedAfterAttempts 3 ''timeout'')"
    by (simp add: offlineWorld_def sampleWorld_def i0)
  have c: "dbCreateErr offlineWorld = None" by (simp add: offlineWorld_def sampleWorld_def)
  have e: "?h = (fst ?h, fst (snd ?h), snd (snd ?h))" by simp
  from addMovieHandler_keeps_remote_image[OF refl u p m l i d e] c i0
  have "map_option m_ImageURL (createdMovie (snd (snd ?h))) = Some ''https://img1.doubanio.com/p1.jpg''"
    and "fst ?h = MovieAdded"
    by auto
  with d0 show ?thesis by blast
qed

subsection \<open>C8: the file extension\<close>

text \<open>
  C8 at an input where the code departs from it. For the content type \<open>image/gif\<close>,
  \<^verbatim>\<open>downloadImage\<close> chooses \<open>.gif\<close> and \<^verbatim>\<open>downloadJavImage\<close>, which has no branch
  for \<open>gif\<close>, chooses \<open>.jpg\<close>. (\<open>imageExt_mapping\<close> above shows that
  \<^verbatim>\<open>downloadImage\<close> follows the mapping of the claim.)
\<close>

theorem downloadJavImage_gif_saved_as_jpg:
  "imageExt ''image/gif'' = ''.gif''
   \<and> javImageExt ''image/gif'' = ''.jpg''
   \<and> fst (downloadImage gifNet okDisk Map.empty ''https://pics.example/cover.gif''
          ''1292052'' ''images'') = Inr ''images/1292052.gif''
   \<and> fst (downloadJavImage gifNet okDisk Map.empty ''https://pics.example/cover.gif''
          ''ABC-123_poster'' ''images'') = Inr ''images/ABC-123_poster.jpg''"
  by code_simp

subsection \<open>C9: the output of the subprocess\<close>

text \<open>
  C9, as the code has it. When either marker does not occur in the output, the result is
  the error that carries the whole output. When the first start marker is followed by
  the first end marker, the text between them, with the white space around it trimmed,
  is what the decoder gets, and nothing outside the markers is looked at; the fifteen
  fields of the record are read with \<^verbatim>\<open>getString\<close>, which gives the empty string for
  a key that is absent or whose value is not a string. The statement says nothing about
  an output whose first end marker starts before the end of its first start marker.
\<close>

theorem fetchJavInfoFromPython_extracts:
  "((\<not> (\<exists>p q. out = p @ startMarker @ q) \<or> \<not> (\<exists>p q. out = p @ endMarker @ q)) \<longrightarrow>
      fetchJavInfoFromPython U None out = JavError (NoJSONOutput out))
   \<and> (out = pre @ startMarker @ mid @ endMarker @ post \<and>
       (\<forall>p' q'. out = p' @ startMarker @ q' \<longrightarrow> length pre \<le> length p') \<and>
       (\<forall>p' q'. out = p' @ endMarker @ q' \<longrightarrow> length (pre @ startMarker @ mid) \<le> length p') \<longrightarrow>
      fetchJavInfoFromPython U None out =
        (case U (TrimSpace mid) of
           Inl err \<Rightarrow> JavError (JSONParseFailed err (TrimSpace mid))
         | Inr result \<Rightarrow> JavInfo (buildJavMovie result)))
   \<and> (m key = None \<or> (\<exists>v. m key = Some v \<and> (\<forall>s. v \<noteq> JString s)) \<longrightarrow> getString m key = [])
   \<and> (\<forall>s. m key = Some (JString s) \<longrightarrow> getString m key = s)
   \<and> j_Number (buildJavMovie m) = getString m ''number''
   \<and> j_Title (buildJavMovie m) = getString m ''title''
   \<and> j_Poster (buildJavMovie m) = getString m ''poster''
   \<and> j_Thumb (buildJavMovie m) = getString m ''thumb''
   \<and> j_Actor (buildJavMovie m) = getString m ''actor''
   \<and> j_Release (buildJavMovie m) = getString m ''release''
   \<and> j_Year (buildJavMovie m) = getString m ''year''
   \<and> j_Tag (buildJavMovie m) = getString m ''tag''
   \<and> j_Mosaic (buildJavMovie m) = getString m ''mosaic''
   \<and> j_Runtime (buildJavMovie m) = getString m ''runtime''
   \<and> j_Studio (buildJavMovie m) = getString m ''studio''
   \<and> j_Publisher (buildJavMovie m) = getString m ''publisher''
   \<and> j_Director (buildJavMovie m) = getString m ''director''
   \<and> j_Series (buildJavMovie m) = getString m ''series''
   \<and> j_Website (buildJavMovie m) = getString m ''website''"
proof -
  have a: "(\<not> (\<exists>p q. out = p @ startMarker @ q) \<or> \<not> (\<exists>p q. out = p @ endMarker @ q)) \<longrightarrow>
      fetchJavInfoFromPython U None out = JavError (NoJSONOutput out)"
    using Index_absent[of out startMarker] Index_absent[of out endMarker]
    by (auto simp: fetchJavInfoFromPython_def Let_def)
  have b: "out = pre @ startMarker @ mid @ endMarker @ post \<and>
       (\<forall>p' q'. out = p' @ startMarker @ q' \<longrightarrow> length pre \<le> length p') \<and>
       (\<forall>p' q'. out = p' @ endMarker @ q' \<longrightarrow> length (pre @ startMarker @ mid) \<le> length p') \<longrightarrow>
      fetchJavInfoFromPython U None out =
        (case U (TrimSpace mid) of
           Inl err \<Rightarrow> JavError (JSONParseFailed err (TrimSpace mid))
         | Inr result \<Rightarrow> JavInfo (buildJavMovie result))"
  proof
    assume h: "out = pre @ startMarker @ mid @ endMarker @ post \<and>
       (\<forall>p' q'. out = p' @ startMarker @ q' \<longrightarrow> length pre \<le> length p') \<and>
       (\<forall>p' q'. out = p' @ endMarker @ q' \<longrightarrow> length (pre @ startMarker @ mid) \<le> length p')"
    then have o1: "out = pre @ startMarker @ (mid @ endMarker @ post)"
      and o2: "out = (pre @ startMarker @ mid) @ endMarker @ post" by simp_all
    from h have si: "Index out startMarker = int (length pre)"
      using Index_eq_first[OF o1] by blast
    from h have ei: "Index out endMarker = int (length (pre @ startMarker @ mid))"
      using Index_eq_first[OF o2] by blast
    have sl: "slice out (int (length pre) + int (length startMarker))
                (int (length (pre @ startMarker @ mid))) = Some mid"
      unfolding o1 by (simp add: slice_def)
    show "fetchJavInfoFromPython U None out =
        (case U (TrimSpace mid) of
           Inl err \<Rightarrow> JavError (JSONParseFailed err (TrimSpace mid))
         | Inr result \<Rightarrow> JavInfo (buildJavMovie result))"
      unfolding fetchJavInfoFromPython_def si ei Let_def sl by simp
  qed
  have c: "m key = None \<or> (\<exists>v. m key = Some v \<and> (\<forall>s. v \<noteq> JString s)) \<longrightarrow> getString m key = []"
    by (auto simp: getString_def split: json.splits)
  have d: "\<forall>s. m key = Some (JString s) \<longrightarrow> getString m key = s"
    by (simp add: getString_def)
  have e: "j_Number (buildJavMovie m) = getString m ''number''"
    "j_Title (buildJavMovie m) = getString m ''title''"
    "j_Poster (buildJavMovie m) = getString m ''poster''"
    "j_Thumb (buildJavMovie m) = getString m ''thumb''"
    "j_Actor (buildJavMovie m) = getString m ''actor''"
    "j_Release (buildJavMovie m) = getString m ''release''"
    "j_Year (buildJavMovie m) = getString m ''year''"
    "j_Tag (buildJavMovie m) = getString m ''tag''"
    "j_Mosaic (buildJavMovie m) = getString m ''mosaic''"
    "j_Runtime (buildJavMovie m) = getString m ''runtime''"
    "j_Studio (buildJavMovie m) = getString m ''studio''"
    "j_Publisher (buildJavMovie m) = getString m ''publisher''"
    "j_Director (buildJavMovie m) = getString m ''director''"
    "j_Series (buildJavMovie m) = getString m ''series''"
    "j_Website (buildJavMovie m) = getString m ''website''"
    by (simp_all add: buildJavMovie_def)
  from a b c d e show ?thesis by blast
qed

text \<open>
  C9, witness: an output with the JSON text on a line of its own between the markers, in
  which \<open>number\<close> is a string, \<open>year\<close> a number and \<open>title\<close> absent; and an output
  without markers.
\<close>

theorem fetchJavInfoFromPython_extracts_witness:
  "fetchJavInfoFromPython sampleUnmarshal None sampleOutput
     = JavInfo (buildJavMovie [''number'' \<mapsto> JString ''ABC-123'', ''year'' \<mapsto> JNumber 2020])
   \<and> j_Number (buildJavMovie [''number'' \<mapsto> JString ''ABC-123'', ''year'' \<mapsto> JNumber 2020])
       = ''ABC-123''
   \<and> j_Year (buildJavMovie [''number'' \<mapsto> JString ''ABC-123'', ''year'' \<mapsto> JNumber 2020]) = []
   \<and> j_Title (buildJavMovie [''number'' \<mapsto> JString ''ABC-123'', ''year'' \<mapsto> JNumber 2020]) = []
   \<and> fetchJavInfoFromPython sampleUnmarshal None ''python3: not found''
       = JavError (NoJSONOutput ''python3: not found'')"
proof -
  let ?m = "[''number'' \<mapsto> JString ''ABC-123'', ''year'' \<mapsto> JNumber 2020]"
  let ?pre = "''fetching ABC-123'' @ [CHR 0x0A]"
  let ?mid = "[CHR 0x0A] @ sampleJSON @ [CHR 0x0A]"
  let ?post = "[CHR 0x0A]"
  have shape: "sampleOutput = ?pre @ startMarker @ ?mid @ endMarker @ ?post"
    by (simp add: sampleOutput_def startMarker_def endMarker_def)
  have si: "Index sampleOutput startMarker = int (length ?pre)" by code_simp
  have ei: "Index sampleOutput endMarker = int (length (?pre @ startMarker @ ?mid))" by code_simp
  have m1: "\<forall>p' q'. sampleOutput = p' @ startMarker @ q' \<longrightarrow> length ?pre \<le> length p'"
    using Index_least[of sampleOutput _ startMarker] si by (metis nat_int)
  have m2: "\<forall>p' q'. sampleOutput = p' @ endMarker @ q' \<longrightarrow>
      length (?pre @ startMarker @ ?mid) \<le> length p'"
    using Index_least[of sampleOutput _ endMarker] ei by (metis nat_int)
  have tr: "TrimSpace ?mid = sampleJSON" by code_simp
  have um: "sampleUnmarshal sampleJSON = Inr ?m" by (simp add: sampleUnmarshal_def sampleJSON_def)
  from fetchJavInfoFromPython_extracts[of sampleOutput sampleUnmarshal ?pre ?mid ?post] shape m1 m2
  have r1: "fetchJavInfoFromPython sampleUnmarshal None sampleOutput = JavInfo (buildJavMovie ?m)"
    unfolding tr um by simp
  have k1: "?m ''number'' = Some (JString ''ABC-123'')" by simp
  have k2: "?m ''year'' = Some (JNumber 2020) \<and> (\<forall>s. JNumber 2020 \<noteq> JString s)" by simp
  have k3: "?m ''title'' = None" by simp
  from fetchJavInfoFromPython_extracts[of sampleOutput sampleUnmarshal _ _ _ ?m "''number''"] k1
  have r2: "j_Number (buildJavMovie ?m) = ''ABC-123''" by simp
  from fetchJavInfoFromPython_extracts[of sampleOutput sampleUnmarshal _ _ _ ?m "''year''"] k2
  have r3: "j_Year (buildJavMovie ?m) = []" by metis
  from fetchJavInfoFromPython_extracts[of sampleOutput sampleUnmarshal _ _ _ ?m "''title''"] k3
  have r4: "j_Title (buildJavMovie ?m) = []" by metis
  have ab: "\<not> (\<exists>p q. ''python3: not found'' = p @ startMarker @ q)"
  proof -
    have "\<not> Contains ''python3: not found'' startMarker" by code_simp
    then show ?thesis by (simp add: Contains_iff)
  qed
  from fetchJavInfoFromPython_extracts[of "''python3: not found''" sampleUnmarshal] ab
  have r5: "fetchJavInfoFromPython sampleUnmarshal None ''python3: not found''
       = JavError (NoJSONOutput ''python3: not found'')" by blast
  from r1 r2 r3 r4 r5 show ?thesis by blast
qed

text \<open>
  C9, counterexample to the claim as stated. Both markers occur, the end marker first:
  the slice expression panics, so the consumer neither extracts a text nor returns an
  error. And what is extracted is not exactly the text between the markers: from
  \<open>__JSON_START__ nothing __JSON_END__\<close> the text handed on is \<open>nothing\<close> without the
  spaces.
\<close>

theorem fetchJavInfoFromPython_counterexample:
  "Contains swappedOutput startMarker \<and> Contains swappedOutput endMarker
   \<and> fetchJavInfoFromPython sampleUnmarshal None swappedOutput = RuntimePanic
   \<and> fetchJavInfoFromPython sampleUnmarshal None ''__JSON_START__ nothing __JSON_END__''
       = JavError (JSONParseFailed ''invalid character'' ''nothing'')"
  by code_simp

subsection \<open>C10: a game without a localized title\<close>

text \<open>
  C10. When the localized title is empty and the primary title is not, the containment
  test succeeds, the canonical title is empty, and the alternate title is the trimmed
  primary title.
\<close>

theorem game_title_empty_localized:
  assumes "g_TitleCN g = []" and "g_Title g \<noteq> []"
  shows "Contains (g_Title g) (g_TitleCN g) \<and> Title (projectGame g) = []
         \<and> AltTitle (projectGame g) = TrimSpace (g_Title g)"
proof -
  have c: "Contains (g_Title g) []" by (cases "g_Title g") (simp_all add: Contains_def)
  then show ?thesis using assms(1)
    by (simp add: projectGame_def gameTitle_def gameAltTitle_def Replace1_def)
qed

text \<open>C10, witness: the primary title \<open>Portal 2\<close> between two spaces.\<close>

theorem game_title_empty_localized_witness:
  "g_TitleCN (sampleGame\<lparr> g_Title := '' Portal 2 '', g_TitleCN := [] \<rparr>) = []
   \<and> g_Title (sampleGame\<lparr> g_Title := '' Portal 2 '', g_TitleCN := [] \<rparr>) \<noteq> []
   \<and> Title (projectGame (sampleGame\<lparr> g_Title := '' Portal 2 '', g_TitleCN := [] \<rparr>)) = []
   \<and> AltTitle (projectGame (sampleGame\<lparr> g_Title := '' Portal 2 '', g_TitleCN := [] \<rparr>)) = ''Portal 2''"
proof -
  let ?g = "sampleGame\<lparr> g_Title := '' Portal 2 '', g_TitleCN := [] \<rparr>"
  have h1: "g_TitleCN ?g = []" and h2: "g_Title ?g \<noteq> []" by simp_all
  have t: "TrimSpace '' Portal 2 '' = ''Portal 2''" by code_simp
  from game_title_empty_localized[OF h1 h2] t h1 h2 show ?thesis by simp
qed

end
